theory Spec2Isabelle
  imports Complex_Main
begin

section \<open>NetCDF TimeRemapper: the three scripts of the programmable filter\<close>

text \<open>
  The source file holds three scripts that a ParaView Programmable Filter runs at three
  pipeline passes: the RequestInformation script (the build of the custom time line), the
  RequestUpdateExtent script (the mapping of a requested custom time to an original time)
  and the Script proper, also called RequestData (the attributes attached to the output).
  The scripts share state through attributes of the long-lived filter object \<open>self\<close>.

  Python strings are modelled as HOL strings, so a character is a code point below 256.
  Python floats are modelled by the rational number they denote; every float the scripts
  compute themselves is the conversion of an integer.
\<close>

subsection \<open>Python string operations used by the scripts\<close>

text \<open>The characters \<open>str.strip()\<close> removes, among the code points below 256.\<close>

definition is_space :: "char \<Rightarrow> bool" where
  "is_space c =
     (let n = (of_char c :: nat)
      in (9 \<le> n \<and> n \<le> 13) \<or> (28 \<le> n \<and> n \<le> 32) \<or> n = 133 \<or> n = 160)"

text \<open>\<open>s.strip()\<close>: leading and trailing whitespace removed.\<close>

definition strip :: "string \<Rightarrow> string" where
  "strip s = rev (dropWhile is_space (rev (dropWhile is_space s)))"

text \<open>\<open>s.startswith(p)\<close>.\<close>

definition startswith :: "string \<Rightarrow> string \<Rightarrow> bool" where
  "startswith s p = (take (length p) s = p)"

text \<open>\<open>p in s\<close> for strings: \<open>p\<close> occurs in \<open>s\<close> as a contiguous substring.\<close>

fun contains :: "string \<Rightarrow> string \<Rightarrow> bool" where
  "contains [] p = (p = [])"
| "contains (c # cs) p = (startswith (c # cs) p \<or> contains cs p)"

text \<open>\<open>s.lower()\<close>, character by character, for code points below 256.\<close>

definition lower_char :: "char \<Rightarrow> char" where
  "lower_char c =
     (let n = (of_char c :: nat)
      in if (65 \<le> n \<and> n \<le> 90) \<or> (192 \<le> n \<and> n \<le> 222 \<and> n \<noteq> 215)
         then char_of (n + 32) else c)"

definition lower :: "string \<Rightarrow> string" where
  "lower s = map lower_char s"

text \<open>The decimal text of a count, as an f-string renders an integer.\<close>

fun digits_of :: "nat \<Rightarrow> string" where
  "digits_of n =
     (if n < 10 then [char_of (48 + n)]
      else digits_of (n div 10) @ [char_of (48 + n mod 10)])"

subsection \<open>Exceptions\<close>

text \<open>
  One constructor for every exception the scripts can raise:
  \<^item> \<open>OSError\<close>: \<open>open(time_file)\<close> fails;
  \<^item> \<open>EmptyFile\<close>: \<open>RuntimeError("TXT file empty!")\<close>;
  \<^item> \<open>NoSeparator s\<close>: the \<open>ValueError\<close> of \<open>parse_date\<close> for a line without \<open>T\<close>;
  \<^item> \<open>Incomplete s d t\<close>: the \<open>ValueError\<close> of \<open>parse_date\<close> for an empty part;
  \<^item> \<open>BadDatetime s\<close>: the \<open>ValueError\<close> of \<open>np.datetime64(s)\<close>;
  \<^item> \<open>StepCountMismatch n m\<close>: the \<open>ValueError\<close> of the step count check, for \<open>n\<close>
    dates in the file and \<open>m\<close> time steps in the data;
  \<^item> \<open>AttributeError a\<close>: a read of the attribute \<open>a\<close> that \<open>self\<close> does not have;
  \<^item> \<open>IndexError\<close>: a list index out of range;
  \<^item> \<open>NameError v\<close>: a read of the unbound variable \<open>v\<close>.
\<close>

datatype error =
    OSError
  | EmptyFile
  | NoSeparator string
  | Incomplete string string string
  | BadDatetime string
  | StepCountMismatch nat nat
  | AttributeError string
  | IndexError
  | NameError string

text \<open>The message of the step count check's exception.\<close>

definition mismatch_message :: "nat \<Rightarrow> nat \<Rightarrow> string" where
  "mismatch_message n m =
     ''Number of dates in file ('' @ digits_of n @
     '') doesn'' @ [CHR 0x27] @ ''t match time steps in data ('' @ digits_of m @ '')!''"

subsection \<open>Reading the time file\<close>

text \<open>
  The file is given as the lines its iteration yields, each with its line end.
  The comprehension keeps a line when its stripped text is not empty and the line itself,
  not stripped, does not start with \<open>#\<close>; it keeps the stripped text.
\<close>

definition read_lines :: "string list \<Rightarrow> string list" where
  "read_lines f =
     map strip (filter (\<lambda>line. strip line \<noteq> [] \<and> \<not> startswith line ''#'') f)"

text \<open>
  \<open>parse_date\<close> splits at the first \<open>T\<close> (\<open>s.split('T', 1)\<close>) and raises when there is
  no \<open>T\<close> or when a part is empty.
\<close>

definition parse_date :: "string \<Rightarrow> error + (string \<times> string)" where
  "parse_date s =
     (if CHR ''T'' \<notin> set s then Inl (NoSeparator (strip s))
      else
        let date_part = takeWhile (\<lambda>c. c \<noteq> CHR ''T'') s;
            time_part = tl (dropWhile (\<lambda>c. c \<noteq> CHR ''T'') s)
        in if date_part = [] \<or> time_part = [] then Inl (Incomplete s date_part time_part)
           else Inr (date_part, time_part))"

subsection \<open>Instants and floats\<close>

text \<open>
  Modelled from the spec: \<open>np.datetime64\<close> is a call into the numpy library, whose code is
  not part of the repository. The spec describes what the scripts rely on: a line of the
  fixed layout \<open><date>T<time>\<close>, such as \<open>-4000-01-01T00:00:00\<close>, is parsed into an
  absolute instant with whole-second resolution in a proleptic calendar with signed
  years, where a year may be zero or negative, and the difference of two instants is a
  signed 64-bit number of whole seconds. The model is the proleptic Gregorian calendar
  with astronomical year numbering. \<open>civil_instant\<close> is the instant of a line as the
  calendar has it: the number of seconds since \<open>1970-01-01T00:00:00\<close>, an integer of
  any size. \<open>datetime64\<close> is the instant as numpy stores it, in a signed 64-bit
  integer: the calendar's number reduced to 64 bits, for years of up to 16 digits.
  The value \<open>- 2 ^ 63\<close> is numpy's \<open>NaT\<close>, and a difference with an operand \<open>NaT\<close> is
  \<open>NaT\<close>.
\<close>

fun split_on :: "char \<Rightarrow> string \<Rightarrow> string list" where
  "split_on d [] = [[]]"
| "split_on d (c # cs) =
     (if c = d then [] # split_on d cs
      else (case split_on d cs of [] \<Rightarrow> [[c]] | p # ps \<Rightarrow> (c # p) # ps))"

definition is_digit :: "char \<Rightarrow> bool" where
  "is_digit c = (48 \<le> (of_char c :: nat) \<and> (of_char c :: nat) \<le> 57)"

definition number :: "string \<Rightarrow> nat option" where
  "number s =
     (if s \<noteq> [] \<and> list_all is_digit s
      then Some (foldl (\<lambda>n c. 10 * n + (of_char c - 48)) 0 s) else None)"

definition two_digits :: "string \<Rightarrow> nat option" where
  "two_digits s = (if length s = 2 then number s else None)"

definition is_leap :: "int \<Rightarrow> bool" where
  "is_leap y = (y mod 4 = 0 \<and> (y mod 400 = 0 \<or> y mod 100 \<noteq> 0))"

definition days_in_month :: "int \<Rightarrow> nat \<Rightarrow> nat" where
  "days_in_month y m =
     (if m = 2 then (if is_leap y then 29 else 28)
      else if m = 4 \<or> m = 6 \<or> m = 9 \<or> m = 11 then 30 else 31)"

text \<open>The days from the first day of year 0 to the first day of year \<open>y\<close>.\<close>

definition days_before_year :: "int \<Rightarrow> int" where
  "days_before_year y = 365 * y + (y + 3) div 4 - (y + 99) div 100 + (y + 399) div 400"

definition days_before_month :: "int \<Rightarrow> nat \<Rightarrow> nat" where
  "days_before_month y m = sum_list (map (days_in_month y) [1..<m])"

definition instant :: "int \<Rightarrow> nat \<Rightarrow> nat \<Rightarrow> nat \<Rightarrow> nat \<Rightarrow> nat \<Rightarrow> int" where
  "instant y mo d h mi se =
     (days_before_year y - days_before_year 1970 + int (days_before_month y mo) + int d - 1)
         * 86400
       + int h * 3600 + int mi * 60 + int se"

definition civil_instant :: "string \<Rightarrow> error + int" where
  "civil_instant s =
     (let neg = startswith s ''-'';
          body = (if neg then tl s else s)
      in case split_on CHR ''T'' body of
           [date, time] \<Rightarrow>
             (case (split_on CHR ''-'' date, split_on CHR '':'' time) of
                ([ys, ms, ds], [hs, mis, ss]) \<Rightarrow>
                  (case those [number ys, two_digits ms, two_digits ds,
                               two_digits hs, two_digits mis, two_digits ss] of
                     Some [yn, mo, d, h, mi, se] \<Rightarrow>
                       (let y = (if neg then - int yn else int yn)
                        in if 1 \<le> mo \<and> mo \<le> 12 \<and> 1 \<le> d \<and> d \<le> days_in_month y mo
                              \<and> h < 24 \<and> mi < 60 \<and> se < 60
                           then Inr (instant y mo d h mi se)
                           else Inl (BadDatetime s))
                   | _ \<Rightarrow> Inl (BadDatetime s))
              | _ \<Rightarrow> Inl (BadDatetime s))
         | _ \<Rightarrow> Inl (BadDatetime s))"

text \<open>A signed 64-bit integer holds an integer reduced to the range from \<open>- 2 ^ 63\<close>.\<close>

definition wrap64 :: "int \<Rightarrow> int" where
  "wrap64 n = (n + 2 ^ 63) mod 2 ^ 64 - 2 ^ 63"

definition NaT :: int where
  "NaT = - (2 ^ 63)"

definition datetime64 :: "string \<Rightarrow> error + int" where
  "datetime64 s = (case civil_instant s of Inl e \<Rightarrow> Inl e | Inr n \<Rightarrow> Inr (wrap64 n))"

text \<open>\<open>a - b\<close> for two stored instants: a 64-bit difference, \<open>NaT\<close> when an operand is.\<close>

definition timedelta :: "int \<Rightarrow> int \<Rightarrow> int" where
  "timedelta a b = (if a = NaT \<or> b = NaT then NaT else wrap64 (a - b))"

text \<open>
  \<open>float(n)\<close> for an integer \<open>n\<close>: the nearest double, ties to the even mantissa. An
  integer of at most 53 bits is kept as it is; a longer one is rounded to 53 bits.
\<close>

fun bit_length :: "nat \<Rightarrow> nat" where
  "bit_length n = (if n = 0 then 0 else Suc (bit_length (n div 2)))"

definition py_float :: "int \<Rightarrow> rat" where
  "py_float n =
     (let a = nat \<bar>n\<bar>; k = bit_length a
      in if k \<le> 53 then of_int n
         else
           let e = k - 53; q = a div 2 ^ e; r = a mod 2 ^ e; h = 2 ^ (e - 1);
               m = (if h < r \<or> (r = h \<and> odd q) then q + 1 else q)
           in of_int (sgn n * int (m * 2 ^ e)))"

subsection \<open>The filter object and the pipeline information\<close>

text \<open>
  A value that the scripts hold in a variable that may be \<open>None\<close> or a float: the
  requested update time.
\<close>

datatype pyval = PyNone | PyFloat rat

text \<open>
  The attributes the scripts attach to \<open>self\<close>. A field is \<open>None\<close> while \<open>self\<close>
  does not have the attribute (\<open>hasattr\<close> is false).
\<close>

record filter_state =
  custom_times :: "rat list option"
  orig_times :: "rat list option"
  new_units :: "string option"
  custom_times_annotation :: "string list option"
  initialized :: "bool option"
  current_requested_custom_time :: "pyval option"

text \<open>
  A \<open>vtkInformation\<close> object, with the three keys of \<open>vtkStreamingDemandDrivenPipeline\<close>
  the scripts use. A field is \<open>None\<close> while the object does not have the key
  (\<open>Has\<close> is false).
\<close>

record information =
  TIME_STEPS :: "rat list option"
  TIME_RANGE :: "(rat \<times> rat) option"
  UPDATE_TIME_STEP :: "rat option"

text \<open>\<open>info.Length(ts_key)\<close>: the length of the vector, 0 without the key.\<close>

definition Length :: "information \<Rightarrow> nat" where
  "Length info = (case TIME_STEPS info of None \<Rightarrow> 0 | Some ts \<Rightarrow> length ts)"

text \<open>\<open>info.Get(ts_key, i)\<close>, read only at indices below \<open>Length\<close>.\<close>

definition Get :: "information \<Rightarrow> nat \<Rightarrow> rat" where
  "Get info i = (case TIME_STEPS info of None \<Rightarrow> 0 | Some ts \<Rightarrow> ts ! i)"

text \<open>\<open>info.Append(ts_key, t)\<close>: the vector gets one more value, and is created if absent.\<close>

definition Append :: "rat \<Rightarrow> information \<Rightarrow> information" where
  "Append t info =
     info\<lparr>TIME_STEPS := Some ((case TIME_STEPS info of None \<Rightarrow> [] | Some ts \<Rightarrow> ts) @ [t])\<rparr>"

text \<open>
  \<open>xs.index(v)\<close>: the first position that holds a value equal to \<open>v\<close>; \<open>None\<close> stands
  for the \<open>ValueError\<close> raised when there is none.
\<close>

fun list_index :: "'a list \<Rightarrow> 'a \<Rightarrow> nat option" where
  "list_index [] v = None"
| "list_index (x # xs) v = (if x = v then Some 0 else map_option Suc (list_index xs v))"

text \<open>
  A loop \<open>for x in xs: ys.append(f(x))\<close> whose body may raise: the first exception ends
  the loop.
\<close>

fun for_append :: "('a \<Rightarrow> error + 'b) \<Rightarrow> 'a list \<Rightarrow> error + 'b list" where
  "for_append f [] = Inr []"
| "for_append f (x # xs) =
     (case f x of
        Inl e \<Rightarrow> Inl e
      | Inr y \<Rightarrow> (case for_append f xs of Inl e \<Rightarrow> Inl e | Inr ys \<Rightarrow> Inr (y # ys)))"

subsection \<open>1. The RequestInformation script\<close>

text \<open>The body of the loop that builds \<open>custom_times_annotation\<close>.\<close>

definition annotation_of :: "string \<Rightarrow> error + string" where
  "annotation_of line =
     (case parse_date line of
        Inl e \<Rightarrow> Inl e
      | Inr (date, time) \<Rightarrow> Inr (date @ '' '' @ time))"

text \<open>
  The body of the loop that builds \<open>custom_times\<close>: the difference to the reference,
  in seconds, read as an integer and converted to a float.
\<close>

definition seconds_since :: "int \<Rightarrow> string \<Rightarrow> error + rat" where
  "seconds_since ref_date line =
     (case datetime64 line of
        Inl e \<Rightarrow> Inl e
      | Inr current_date \<Rightarrow> Inr (py_float (timedelta current_date ref_date)))"

text \<open>
  The end of the script, which provides the custom times to the pipeline: the two keys are
  removed from the output information, every custom time is appended to the time steps,
  and the time range is set to the first and the last custom time.
\<close>

definition provide :: "rat list \<Rightarrow> information \<Rightarrow> information" where
  "provide ctimes outInfo =
     (let out1 = outInfo\<lparr>TIME_STEPS := None\<rparr>;
          out2 = out1\<lparr>TIME_RANGE := None\<rparr>;
          out3 = fold Append ctimes out2
      in if ctimes \<noteq> [] then out3\<lparr>TIME_RANGE := Some (hd ctimes, last ctimes)\<rparr>
         else out3)"

text \<open>
  The script, from the deletion of the two attributes to the time range. Its inputs are
  the time file (\<open>None\<close> when it cannot be opened, else its lines), the input information
  and the state it changes: \<open>self\<close> and the output information. It returns the exception
  raised, if any, and the state left behind.
\<close>

definition RequestInformation ::
  "string list option \<Rightarrow> information \<Rightarrow> filter_state \<Rightarrow> information
     \<Rightarrow> error option \<times> filter_state \<times> information" where
  "RequestInformation time_file inInfo self outInfo =
     (let self1 = self\<lparr>custom_times := None, orig_times := None\<rparr>
      in if custom_times self1 \<noteq> None then (Some (NameError ''ts_key''), self1, outInfo)
      else
       (case time_file of
          None \<Rightarrow> (Some OSError, self1, outInfo)
        | Some f \<Rightarrow>
           (let lines = read_lines f
            in if lines = [] then (Some EmptyFile, self1, outInfo)
            else
             (case datetime64 (hd lines) of
                Inl e \<Rightarrow> (Some e, self1, outInfo)
              | Inr ref_date \<Rightarrow>
                 (case parse_date (hd lines) of
                    Inl e \<Rightarrow> (Some e, self1, outInfo)
                  | Inr (ref_date_str, ref_time_str) \<Rightarrow>
                     (let self2 = self1\<lparr>new_units :=
                            Some (''seconds since '' @ ref_date_str @ '' '' @ ref_time_str)\<rparr>
                      in
                       (case for_append annotation_of lines of
                          Inl e \<Rightarrow> (Some e, self2, outInfo)
                        | Inr annotation \<Rightarrow>
                           (let self3 = self2\<lparr>custom_times_annotation := Some annotation\<rparr>
                            in
                             (case for_append (seconds_since ref_date) lines of
                                Inl e \<Rightarrow> (Some e, self3, outInfo)
                              | Inr ctimes \<Rightarrow>
                                 (let num_ts = Length inInfo
                                  in if num_ts \<noteq> length ctimes
                                     then (Some (StepCountMismatch (length ctimes) num_ts),
                                           self3, outInfo)
                                     else
                                      (let origs = map (Get inInfo) [0..<num_ts];
                                           self4 = self3\<lparr>custom_times := Some ctimes,
                                                     orig_times := Some origs,
                                                     initialized := Some True\<rparr>
                                       in (None, self4, provide ctimes outInfo))))))))))))"

subsection \<open>2. The RequestUpdateExtent script\<close>

text \<open>
  The index of the original time: \<open>0\<close> without a requested time, else the position of
  the requested time in \<open>self.custom_times\<close>, and \<open>0\<close> when \<open>index\<close> raises \<open>ValueError\<close>.
\<close>

definition extent_idx :: "filter_state \<Rightarrow> rat option \<Rightarrow> error + nat" where
  "extent_idx self requested_time =
     (case requested_time of
        None \<Rightarrow> Inr 0
      | Some t \<Rightarrow>
          (case custom_times self of
             None \<Rightarrow> Inl (AttributeError ''custom_times'')
           | Some ctimes \<Rightarrow>
               (case list_index ctimes t of None \<Rightarrow> Inr 0 | Some i \<Rightarrow> Inr i)))"

text \<open>
  The script: it reads the requested time of the output information, sets the update time
  of the input information to the original time at the index, and records the requested
  time on \<open>self\<close>. It returns the exception raised, or \<open>self\<close> and the input information
  as it leaves them.
\<close>

definition RequestUpdateExtent ::
  "filter_state \<Rightarrow> information \<Rightarrow> information \<Rightarrow> error + (filter_state \<times> information)" where
  "RequestUpdateExtent self outInfo inInfo =
     (let requested_time = UPDATE_TIME_STEP outInfo
      in
       (case extent_idx self requested_time of
          Inl e \<Rightarrow> Inl e
        | Inr idx \<Rightarrow>
           (case orig_times self of
              None \<Rightarrow> Inl (AttributeError ''orig_times'')
            | Some origs \<Rightarrow>
               (if \<not> idx < length origs then Inl IndexError
                else
                 (let inInfo1 = inInfo\<lparr>UPDATE_TIME_STEP := None\<rparr>;
                      inInfo2 = inInfo1\<lparr>UPDATE_TIME_STEP := Some (origs ! idx)\<rparr>;
                      self1 = self\<lparr>current_requested_custom_time :=
                                Some (case UPDATE_TIME_STEP outInfo of
                                        None \<Rightarrow> PyNone | Some t \<Rightarrow> PyFloat t)\<rparr>
                  in Inr (self1, inInfo2))))))"

subsection \<open>3. The Script (RequestData)\<close>

text \<open>
  The field data of a data object: its arrays in order, each with its name
  (\<open>GetArrayName\<close> gives \<open>None\<close> for an array without a name) and its values. The scripts
  build string arrays; the values of the other arrays are left abstract.
\<close>

datatype 'd array_data = StringArray "string list" | OtherArray 'd

type_synonym 'd field_data = "(string option \<times> 'd array_data) list"

text \<open>\<open>fieldData.RemoveArray(name)\<close>: the first array of that name is removed.\<close>

fun RemoveArray :: "string \<Rightarrow> 'd field_data \<Rightarrow> 'd field_data" where
  "RemoveArray name [] = []"
| "RemoveArray name (a # fd) = (if fst a = Some name then fd else a # RemoveArray name fd)"

text \<open>
  \<open>fieldData.AddArray(array)\<close> for an array with a name: it takes the place of the first
  array of that name, and is added at the end when there is none.
\<close>

fun AddArray :: "string \<Rightarrow> 'd array_data \<Rightarrow> 'd field_data \<Rightarrow> 'd field_data" where
  "AddArray name vs [] = [(Some name, vs)]"
| "AddArray name vs (a # fd) =
     (if fst a = Some name then (Some name, vs) # fd else a # AddArray name vs fd)"

text \<open>The test of the first loop: \<open>"time" in name.lower() and "units" in name.lower()\<close>.\<close>

definition time_units_name :: "string \<Rightarrow> bool" where
  "time_units_name name = (contains (lower name) ''time'' \<and> contains (lower name) ''units'')"

text \<open>The first loop: the names collected in \<open>arrays_to_remove\<close>, in the order of the arrays.\<close>

fun arrays_to_remove :: "'d field_data \<Rightarrow> string list" where
  "arrays_to_remove [] = []"
| "arrays_to_remove (a # fd) =
     (case fst a of
        None \<Rightarrow> arrays_to_remove fd
      | Some name \<Rightarrow>
          (if time_units_name name then name # arrays_to_remove fd else arrays_to_remove fd))"

text \<open>The two loops together: the field data after the removals.\<close>

definition remove_time_units :: "'d field_data \<Rightarrow> 'd field_data" where
  "remove_time_units fd = fold RemoveArray (arrays_to_remove fd) fd"

text \<open>
  The index of the annotation: the position in \<open>self.custom_times\<close> of the value recorded
  by RequestUpdateExtent, or of \<open>self.custom_times[0]\<close> when none was recorded, and \<open>0\<close>
  when \<open>index\<close> raises \<open>ValueError\<close>.
\<close>

definition data_idx :: "filter_state \<Rightarrow> error + nat" where
  "data_idx self =
     (case custom_times self of
        None \<Rightarrow> Inl (AttributeError ''custom_times'')
      | Some ctimes \<Rightarrow>
         (case (case current_requested_custom_time self of
                  Some v \<Rightarrow> Inr v
                | None \<Rightarrow> (if ctimes = [] then Inl IndexError else Inr (PyFloat (hd ctimes)))) of
            Inl e \<Rightarrow> Inl e
          | Inr current_custom_time \<Rightarrow>
             (case list_index (map PyFloat ctimes) current_custom_time of
                None \<Rightarrow> Inr 0
              | Some i \<Rightarrow> Inr i)))"

text \<open>
  The script: the output starts as a shallow copy of the input, so with the field data
  of the input. It returns the exception raised, or the field data of the output.
  The script assigns no attribute of \<open>self\<close>.
\<close>

definition RequestData :: "filter_state \<Rightarrow> 'd field_data \<Rightarrow> error + 'd field_data" where
  "RequestData self inputData =
     (let fd1 = remove_time_units inputData
      in
       (case new_units self of
          None \<Rightarrow> Inl (AttributeError ''new_units'')
        | Some units \<Rightarrow>
           (let fd2 = AddArray ''time_units'' (StringArray [units]) fd1
            in
             (case data_idx self of
                Inl e \<Rightarrow> Inl e
              | Inr idx \<Rightarrow>
                 (case custom_times_annotation self of
                    None \<Rightarrow> Inl (AttributeError ''custom_times_annotation'')
                  | Some annotation \<Rightarrow>
                     (if \<not> idx < length annotation then Inl IndexError
                      else Inr (AddArray ''current_date''
                                  (StringArray [annotation ! idx]) fd2)))))))"

subsection \<open>Session states\<close>

text \<open>
  The state a successful RequestInformation script leaves on \<open>self\<close>: the four
  attributes the later scripts read are there, there is at least one custom time, and
  the three lists have the same length.
\<close>

definition session_built :: "filter_state \<Rightarrow> bool" where
  "session_built self =
     (case (custom_times self, orig_times self, custom_times_annotation self, new_units self) of
        (Some ctimes, Some origs, Some annotation, Some units) \<Rightarrow>
          ctimes \<noteq> [] \<and> length origs = length ctimes \<and> length annotation = length ctimes
      | _ \<Rightarrow> False)"

text \<open>An array whose name the first loop of the Script collects.\<close>

definition stale_units :: "string option \<times> 'd array_data \<Rightarrow> bool" where
  "stale_units a = (case fst a of None \<Rightarrow> False | Some name \<Rightarrow> time_units_name name)"

text \<open>A filter object without attributes, and an information object without keys.\<close>

definition no_attributes :: filter_state where
  "no_attributes =
     \<lparr>custom_times = None, orig_times = None, new_units = None,
      custom_times_annotation = None, initialized = None,
      current_requested_custom_time = None\<rparr>"

definition no_keys :: information where
  "no_keys = \<lparr>TIME_STEPS = None, TIME_RANGE = None, UPDATE_TIME_STEP = None\<rparr>"

text \<open>The line end that closes each line of a file.\<close>

definition nl :: string where
  "nl = [CHR 0x0A]"

text \<open>
  Time files used as concrete inputs: a file with a comment, a blank line and three
  dates, the first before year 1; a file of two dates in descending order; a file
  with the same date twice.
\<close>

definition bce_file :: "string list" where
  "bce_file =
     [''# custom times'' @ nl, nl, ''-0100-01-01T00:00:00'' @ nl,
      '' 0001-01-01T00:00:00 '' @ nl, ''0001-01-02T12:00:00'']"

definition descending_file :: "string list" where
  "descending_file = [''2000-01-02T00:00:00'' @ nl, ''2000-01-01T00:00:00'' @ nl]"

definition repeated_file :: "string list" where
  "repeated_file = [''2000-01-01T00:00:00'' @ nl, ''2000-01-01T00:00:00'' @ nl]"

text \<open>A file whose two dates are more than \<open>2 ^ 53\<close> seconds apart.\<close>

definition long_span_file :: "string list" where
  "long_span_file = [''-300000000-01-01T00:00:00'' @ nl, ''0001-01-01T00:00:01'' @ nl]"

text \<open>The state the RequestInformation script builds from \<open>bce_file\<close> and three time steps.\<close>

definition bce_session :: filter_state where
  "bce_session =
     \<lparr>custom_times = Some [0, 3187296000, 3187425600],
      orig_times = Some [10, 20, 30],
      new_units = Some ''seconds since -0100-01-01 00:00:00'',
      custom_times_annotation =
        Some [''-0100-01-01 00:00:00'', ''0001-01-01 00:00:00'', ''0001-01-02 12:00:00''],
      initialized = Some True,
      current_requested_custom_time = None\<rparr>"

text \<open>The field data of an input, with three arrays that name time units.\<close>

definition netcdf_field_data :: "nat field_data" where
  "netcdf_field_data =
     [(Some ''Time_Units'', OtherArray 1), (Some ''temperature'', OtherArray 2),
      (None, OtherArray 3), (Some ''time_units'', StringArray [''days since 1900-01-01'']),
      (Some ''TIME:UNITS'', OtherArray 4), (Some ''time_units'', OtherArray 5)]"

section \<open>Properties\<close>

subsection \<open>Lists and loops\<close>

lemma for_append_length: "for_append f xs = Inr ys \<Longrightarrow> length ys = length xs"
  by (induction xs arbitrary: ys) (auto split: sum.splits)

lemma list_index_None: "(list_index xs v = None) = (v \<notin> set xs)"
  by (induction xs) auto

lemma list_index_Some:
  "list_index xs v = Some i \<Longrightarrow> i < length xs \<and> xs ! i = v \<and> v \<notin> set (take i xs)"
proof (induction xs arbitrary: i)
  case Nil
  then show ?case by simp
next
  case (Cons x xs)
  show ?case
  proof (cases "x = v")
    case True
    with Cons.prems show ?thesis by simp
  next
    case False
    with Cons.prems obtain j where j: "list_index xs v = Some j" "i = Suc j"
      by auto
    from Cons.IH [OF j(1)] False j(2) show ?thesis by auto
  qed
qed

lemma list_index_PyFloat: "list_index (map PyFloat xs) (PyFloat v) = list_index xs v"
  by (induction xs) auto

lemma list_index_PyNone: "list_index (map PyFloat xs) PyNone = None"
  by (induction xs) auto

lemma list_index_distinct:
  "distinct xs \<Longrightarrow> i < length xs \<Longrightarrow> list_index xs (xs ! i) = Some i"
proof (induction xs arbitrary: i)
  case Nil
  then show ?case by simp
next
  case (Cons x xs)
  then show ?case by (cases i) auto
qed

lemma list_index_nth_ex:
  "i < length xs \<Longrightarrow> \<exists>j. list_index xs (xs ! i) = Some j \<and> j \<le> i"
proof (induction xs arbitrary: i)
  case Nil
  then show ?case by simp
next
  case (Cons x xs)
  show ?case
  proof (cases i)
    case 0
    then show ?thesis by simp
  next
    case (Suc k)
    with Cons.prems have "k < length xs" by simp
    from Cons.IH [OF this] obtain j where "list_index xs (xs ! k) = Some j" "j \<le> k" by blast
    with Suc show ?thesis by auto
  qed
qed

lemma RequestInformation_NoneE:
  assumes "RequestInformation tf inInfo self outInfo = (None, self', outInfo')"
  obtains f ref_date d t ann ct where
    "tf = Some f" "read_lines f \<noteq> []"
    "datetime64 (hd (read_lines f)) = Inr ref_date"
    "parse_date (hd (read_lines f)) = Inr (d, t)"
    "for_append annotation_of (read_lines f) = Inr ann"
    "for_append (seconds_since ref_date) (read_lines f) = Inr ct"
    "Length inInfo = length ct"
    "custom_times self' = Some ct"
    "orig_times self' = Some (map (Get inInfo) [0..<length ct])"
    "new_units self' = Some (''seconds since '' @ d @ '' '' @ t)"
    "custom_times_annotation self' = Some ann"
    "initialized self' = Some True"
    "current_requested_custom_time self' = current_requested_custom_time self"
    "outInfo' = provide ct outInfo"
  using assms unfolding RequestInformation_def Let_def
  by (auto split: option.splits sum.splits if_splits prod.splits)

subsection \<open>Session states are built and kept\<close>

lemma session_builtE:
  assumes "session_built self"
  obtains ct origs ann u where
    "custom_times self = Some ct" "orig_times self = Some origs"
    "custom_times_annotation self = Some ann" "new_units self = Some u"
    "ct \<noteq> []" "length origs = length ct" "length ann = length ct"
  using assms unfolding session_built_def
  by (auto split: option.splits)

lemma RequestInformation_built:
  assumes "RequestInformation tf inInfo self outInfo = (None, self', outInfo')"
  shows "session_built self'"
proof -
  from assms obtain f r d t ann ct where h:
    "read_lines f \<noteq> []"
    "for_append annotation_of (read_lines f) = Inr ann"
    "for_append (seconds_since r) (read_lines f) = Inr ct"
    "custom_times self' = Some ct"
    "orig_times self' = Some (map (Get inInfo) [0..<length ct])"
    "new_units self' = Some (''seconds since '' @ d @ '' '' @ t)"
    "custom_times_annotation self' = Some ann"
    by (rule RequestInformation_NoneE)
  from h(2) have la: "length ann = length (read_lines f)" by (rule for_append_length)
  from h(3) have lc: "length ct = length (read_lines f)" by (rule for_append_length)
  from h(1) lc have "ct \<noteq> []" by auto
  with h la lc show ?thesis by (simp add: session_built_def)
qed

lemma extent_idx_bound:
  "custom_times self = Some ct \<Longrightarrow> ct \<noteq> [] \<Longrightarrow> extent_idx self req = Inr i \<Longrightarrow> i < length ct"
  unfolding extent_idx_def
  by (auto split: option.splits dest: list_index_Some)

lemma RequestUpdateExtent_fields:
  assumes "RequestUpdateExtent self outInfo inInfo = Inr (self', inInfo')"
  shows "custom_times self' = custom_times self \<and> orig_times self' = orig_times self
       \<and> custom_times_annotation self' = custom_times_annotation self
       \<and> new_units self' = new_units self \<and> initialized self' = initialized self"
  using assms unfolding RequestUpdateExtent_def Let_def
  by (auto split: sum.splits option.splits if_splits)

lemma RequestUpdateExtent_built:
  assumes "RequestUpdateExtent self outInfo inInfo = Inr (self', inInfo')"
    and "session_built self"
  shows "session_built self'"
  using RequestUpdateExtent_fields [OF assms(1)] assms(2)
  by (simp add: session_built_def)

lemma data_idx_recorded:
  "custom_times self = Some ct \<Longrightarrow>
   data_idx (self\<lparr>current_requested_custom_time :=
               Some (case req of None \<Rightarrow> PyNone | Some t \<Rightarrow> PyFloat t)\<rparr>) = extent_idx self req"
  unfolding data_idx_def extent_idx_def
  by (cases req) (auto simp: list_index_PyNone list_index_PyFloat split: option.splits)

lemma RequestUpdateExtent_total:
  assumes "session_built self"
  shows "\<exists>i origs. extent_idx self (UPDATE_TIME_STEP outInfo) = Inr i \<and> orig_times self = Some origs
           \<and> i < length origs
           \<and> RequestUpdateExtent self outInfo inInfo =
               Inr (self\<lparr>current_requested_custom_time :=
                          Some (case UPDATE_TIME_STEP outInfo of
                                  None \<Rightarrow> PyNone | Some t \<Rightarrow> PyFloat t)\<rparr>,
                    inInfo\<lparr>UPDATE_TIME_STEP := Some (origs ! i)\<rparr>)"
proof -
  from assms obtain ct origs where h:
    "custom_times self = Some ct" "orig_times self = Some origs" "ct \<noteq> []"
    "length origs = length ct"
    by (rule session_builtE)
  have "\<exists>i. extent_idx self (UPDATE_TIME_STEP outInfo) = Inr i"
    using h(1) unfolding extent_idx_def by (simp split: option.splits)
  then obtain i where i: "extent_idx self (UPDATE_TIME_STEP outInfo) = Inr i" ..
  from extent_idx_bound [OF h(1) h(3) i] h(4) have "i < length origs" by simp
  with i h(2) show ?thesis
    unfolding RequestUpdateExtent_def Let_def by simp
qed

lemma AddArray_mem: "(Some name, vs) \<in> set (AddArray name vs fd)"
  by (induction fd) auto

lemma RequestData_total:
  assumes "session_built self" "data_idx self = Inr i" "custom_times_annotation self = Some ann"
    "new_units self = Some u" "i < length ann"
  shows "RequestData self fd =
           Inr (AddArray ''current_date'' (StringArray [ann ! i])
                  (AddArray ''time_units'' (StringArray [u]) (remove_time_units fd)))"
  using assms unfolding RequestData_def Let_def by simp

subsection \<open>Evaluating the RequestInformation script\<close>

lemma bce_lines:
  "read_lines bce_file = [''-0100-01-01T00:00:00'', ''0001-01-01T00:00:00'', ''0001-01-02T12:00:00'']"
  by (simp add: read_lines_def bce_file_def nl_def strip_def is_space_def startswith_def)

lemma dt1: "datetime64 ''-0100-01-01T00:00:00'' = Inr (- 65322892800)" by code_simp
lemma dt2: "datetime64 ''0001-01-01T00:00:00'' = Inr (- 62135596800)" by code_simp
lemma dt3: "datetime64 ''0001-01-02T12:00:00'' = Inr (- 62135467200)" by code_simp
lemma dt4: "datetime64 ''2000-01-01T00:00:00'' = Inr 946684800" by code_simp
lemma dt5: "datetime64 ''2000-01-02T00:00:00'' = Inr 946771200" by code_simp
lemma dt6: "datetime64 ''2000-01-01T12:00:00'' = Inr 946728000" by code_simp
lemma dt7: "datetime64 ''# comment'' = Inl (BadDatetime ''# comment'')" by code_simp

lemma pd1: "parse_date ''-0100-01-01T00:00:00'' = Inr (''-0100-01-01'', ''00:00:00'')"
  by (simp add: parse_date_def)


lemma RequestInformation_eval:
  assumes "read_lines f = line # rest"
    and "datetime64 line = Inr r"
    and "parse_date line = Inr (d, t)"
    and "for_append annotation_of (line # rest) = Inr ann"
    and "for_append (seconds_since r) (line # rest) = Inr ct"
    and "TIME_STEPS inInfo = Some ts"
    and "length ts = length ct"
  shows "RequestInformation (Some f) inInfo self outInfo =
           (None,
            self\<lparr>custom_times := Some ct, orig_times := Some ts,
                 new_units := Some (''seconds since '' @ d @ '' '' @ t),
                 custom_times_annotation := Some ann, initialized := Some True\<rparr>,
            provide ct outInfo)"
proof -
  have "Get inInfo = (!) ts"
    using assms(6) by (simp add: Get_def fun_eq_iff)
  then have "map (Get inInfo) [0..<length ct] = ts"
    using assms(7) map_nth [of ts] by simp
  then show ?thesis
    using assms unfolding RequestInformation_def Let_def
    by (simp add: Length_def)
qed

lemma bce_ann: "for_append annotation_of [''-0100-01-01T00:00:00'', ''0001-01-01T00:00:00'', ''0001-01-02T12:00:00'']
   = Inr [''-0100-01-01 00:00:00'', ''0001-01-01 00:00:00'', ''0001-01-02 12:00:00'']"
  by (simp add: annotation_of_def parse_date_def)

lemma bce_ct: "for_append (seconds_since (- 65322892800)) [''-0100-01-01T00:00:00'', ''0001-01-01T00:00:00'', ''0001-01-02T12:00:00'']
   = Inr [0, 3187296000, 3187425600]"
  by (simp add: seconds_since_def timedelta_def wrap64_def NaT_def dt1 dt2 dt3 py_float_def Let_def)

subsection \<open>The field data of the output\<close>

lemma fold_RemoveArray_skip:
  "fst a \<notin> Some ` set ns \<Longrightarrow> fold RemoveArray ns (a # fd) = a # fold RemoveArray ns fd"
  by (induction ns arbitrary: fd) auto

lemma arrays_to_remove_names: "n \<in> set (arrays_to_remove fd) \<Longrightarrow> time_units_name n"
  by (induction fd) (auto split: option.splits if_splits)

lemma remove_time_units_filter:
  "remove_time_units fd = filter (\<lambda>a. \<not> stale_units a) fd"
  unfolding remove_time_units_def
proof (induction fd)
  case Nil
  show ?case by simp
next
  case (Cons a fd)
  show ?case
  proof (cases "fst a")
    case None
    then have "fst a \<notin> Some ` set (arrays_to_remove fd)" by simp
    from fold_RemoveArray_skip [OF this] None Cons.IH show ?thesis
      by (simp add: stale_units_def)
  next
    case (Some n)
    show ?thesis
    proof (cases "time_units_name n")
      case True
      with Some Cons.IH show ?thesis by (simp add: stale_units_def)
    next
      case False
      with Some have "fst a \<notin> Some ` set (arrays_to_remove fd)"
        by (auto dest: arrays_to_remove_names)
      from fold_RemoveArray_skip [OF this] Some False Cons.IH show ?thesis
        by (simp add: stale_units_def)
    qed
  qed
qed

lemma filter_AddArray_other:
  "\<not> time_units_name name \<Longrightarrow>
   filter stale_units (AddArray name vs fd) = filter stale_units fd"
  by (induction fd) (auto simp: stale_units_def)

lemma filter_AddArray_stale:
  "time_units_name name \<Longrightarrow> filter stale_units fd = [] \<Longrightarrow>
   filter stale_units (AddArray name vs fd) = [(Some name, vs)]"
  by (induction fd) (auto simp: stale_units_def split: if_splits)

lemma time_units_is_stale: "time_units_name ''time_units''"
  by code_simp

lemma current_date_not_stale: "\<not> time_units_name ''current_date''"
  by code_simp

text \<open>
  C8. Every array of the input whose name holds both "time" and "units", whatever the
  case of its letters, is removed by the two loops, and the output of the Script has
  exactly one array with such a name: the new array "time_units", whose one value is
  the unit string stored by the RequestInformation script.
\<close>

theorem C8_stale_units_removed:
  "remove_time_units fd = filter (\<lambda>a. \<not> stale_units a) fd \<and>
   (RequestData self fd = Inr fd' \<longrightarrow>
      (\<exists>units. new_units self = Some units \<and>
         filter stale_units fd' = [(Some ''time_units'', StringArray [units])]))"
proof (intro conjI impI)
  show "remove_time_units fd = filter (\<lambda>a. \<not> stale_units a) fd"
    by (rule remove_time_units_filter)
next
  assume ok: "RequestData self fd = Inr fd'"
  then obtain units i ann where h:
    "new_units self = Some units"
    "fd' = AddArray ''current_date'' (StringArray [ann ! i])
             (AddArray ''time_units'' (StringArray [units]) (remove_time_units fd))"
    unfolding RequestData_def Let_def
    by (auto split: option.splits sum.splits if_splits)
  have "filter stale_units (remove_time_units fd) = []"
    by (simp add: remove_time_units_filter)
  from filter_AddArray_stale [OF time_units_is_stale this]
  have "filter stale_units (AddArray ''time_units'' (StringArray [units]) (remove_time_units fd))
          = [(Some ''time_units'', StringArray [units])]" .
  with h show "\<exists>units. new_units self = Some units \<and>
         filter stale_units fd' = [(Some ''time_units'', StringArray [units])]"
    by (simp add: filter_AddArray_other [OF current_date_not_stale])
qed

subsection \<open>A session built from a file, and its output\<close>

lemma bce_built: "session_built bce_session"
  by (simp add: session_built_def bce_session_def)

lemma bce_build:
  "RequestInformation (Some bce_file) (no_keys\<lparr>TIME_STEPS := Some [10, 20, 30]\<rparr>) no_attributes no_keys
     = (None, bce_session, provide [0, 3187296000, 3187425600] no_keys)"
proof -
  have "RequestInformation (Some bce_file) (no_keys\<lparr>TIME_STEPS := Some [10, 20, 30]\<rparr>) no_attributes no_keys
     = (None, no_attributes\<lparr>custom_times := Some [0, 3187296000, 3187425600], orig_times := Some [10, 20, 30],
                 new_units := Some (''seconds since '' @ ''-0100-01-01'' @ '' '' @ ''00:00:00''),
                 custom_times_annotation := Some [''-0100-01-01 00:00:00'', ''0001-01-01 00:00:00'', ''0001-01-02 12:00:00''],
                 initialized := Some True\<rparr>, provide [0, 3187296000, 3187425600] no_keys)"
    by (rule RequestInformation_eval [OF bce_lines dt1 pd1 bce_ann bce_ct]) simp_all
  then show ?thesis by (simp add: no_attributes_def bce_session_def)
qed

lemma netcdf_removed:
  "remove_time_units netcdf_field_data = [(Some ''temperature'', OtherArray 2), (None, OtherArray 3)]"
  by code_simp

lemma bce_data_idx: "data_idx bce_session = Inr 0"
  by (simp add: data_idx_def bce_session_def)

lemma netcdf_output:
  "RequestData bce_session netcdf_field_data =
     Inr [(Some ''temperature'', OtherArray 2), (None, OtherArray 3),
          (Some ''time_units'', StringArray [''seconds since -0100-01-01 00:00:00'']),
          (Some ''current_date'', StringArray [''-0100-01-01 00:00:00''])]"
  by code_simp

theorem C8_stale_units_removed_witness:
  "RequestData bce_session netcdf_field_data =
     Inr [(Some ''temperature'', OtherArray 2), (None, OtherArray 3),
          (Some ''time_units'', StringArray [''seconds since -0100-01-01 00:00:00'']),
          (Some ''current_date'', StringArray [''-0100-01-01 00:00:00''])] \<and>
   new_units bce_session = Some ''seconds since -0100-01-01 00:00:00'' \<and>
   filter stale_units
     [(Some ''temperature'', OtherArray (2::nat)), (None, OtherArray 3),
      (Some ''time_units'', StringArray [''seconds since -0100-01-01 00:00:00'']),
      (Some ''current_date'', StringArray [''-0100-01-01 00:00:00''])]
     = [(Some ''time_units'', StringArray [''seconds since -0100-01-01 00:00:00''])]"
  using C8_stale_units_removed [of netcdf_field_data bce_session
      "[(Some ''temperature'', OtherArray 2), (None, OtherArray 3),
          (Some ''time_units'', StringArray [''seconds since -0100-01-01 00:00:00'']),
          (Some ''current_date'', StringArray [''-0100-01-01 00:00:00''])]"]
    netcdf_output
  by (simp add: bce_session_def)

subsection \<open>Claims about the resolution of a requested time\<close>

text \<open>
  C3. In a built session, a requested custom time that is not among the custom times is
  resolved to index 0 by both scripts, and no exception is raised: RequestUpdateExtent
  returns, having asked the input for the first original time and recorded the requested
  time, and the index that the Script then computes from the recorded time is 0 too.
\<close>

theorem C3_lookup_miss_resolves_to_first:
  assumes "session_built self" and "custom_times self = Some ct" and "t \<notin> set ct"
  shows "\<exists>origs. orig_times self = Some origs \<and> 0 < length origs \<and>
           extent_idx self (Some t) = Inr 0 \<and>
           RequestUpdateExtent self (outInfo\<lparr>UPDATE_TIME_STEP := Some t\<rparr>) inInfo =
             Inr (self\<lparr>current_requested_custom_time := Some (PyFloat t)\<rparr>,
                  inInfo\<lparr>UPDATE_TIME_STEP := Some (origs ! 0)\<rparr>) \<and>
           data_idx (self\<lparr>current_requested_custom_time := Some (PyFloat t)\<rparr>) = Inr 0"
proof -
  from assms(1) obtain ct' origs where h:
    "custom_times self = Some ct'" "orig_times self = Some origs" "ct' \<noteq> []"
    "length origs = length ct'"
    by (rule session_builtE)
  from assms(3) have miss: "list_index ct t = None" by (simp add: list_index_None)
  with assms(2) have e: "extent_idx self (Some t) = Inr 0"
    by (simp add: extent_idx_def)
  from h assms(2) have pos: "0 < length origs" by simp
  from e h(2) pos
  have "RequestUpdateExtent self (outInfo\<lparr>UPDATE_TIME_STEP := Some t\<rparr>) inInfo =
          Inr (self\<lparr>current_requested_custom_time := Some (PyFloat t)\<rparr>,
               inInfo\<lparr>UPDATE_TIME_STEP := Some (origs ! 0)\<rparr>)"
    by (simp add: RequestUpdateExtent_def)
  moreover from assms(2) miss
  have "data_idx (self\<lparr>current_requested_custom_time := Some (PyFloat t)\<rparr>) = Inr 0"
    by (simp add: data_idx_def list_index_PyFloat)
  ultimately show ?thesis using h(2) pos e by simp
qed

theorem C3_lookup_miss_resolves_to_first_witness:
  "session_built bce_session \<and> custom_times bce_session = Some [0, 3187296000, 3187425600] \<and>
   (5::rat) \<notin> set [0, 3187296000, 3187425600] \<and>
   extent_idx bce_session (Some 5) = Inr 0 \<and>
   RequestUpdateExtent bce_session (no_keys\<lparr>UPDATE_TIME_STEP := Some 5\<rparr>) no_keys =
     Inr (bce_session\<lparr>current_requested_custom_time := Some (PyFloat 5)\<rparr>,
          no_keys\<lparr>UPDATE_TIME_STEP := Some 10\<rparr>) \<and>
   data_idx (bce_session\<lparr>current_requested_custom_time := Some (PyFloat 5)\<rparr>) = Inr 0"
proof -
  have b: "session_built bce_session" by (rule bce_built)
  have c: "custom_times bce_session = Some [0, 3187296000, 3187425600]"
    by (simp add: bce_session_def)
  have m: "(5::rat) \<notin> set [0, 3187296000, 3187425600]" by simp
  have o: "orig_times bce_session = Some [10, 20, 30]" by (simp add: bce_session_def)
  from C3_lookup_miss_resolves_to_first [OF b c m, of no_keys no_keys] b c m o
  show ?thesis by auto
qed

text \<open>
  C9. When the RequestInformation script succeeds, the custom times, the original times
  and the annotations it stores have the length of the list of entries read from the
  file, and the original times are the time steps of the input. The RequestUpdateExtent
  script, run in any state, leaves the three lists as they are; the Script assigns no
  attribute at all.
\<close>

theorem C9_three_lists_one_length:
  assumes "RequestInformation (Some f) inInfo self outInfo = (None, self', outInfo')"
  shows "\<exists>ct origs ann.
           custom_times self' = Some ct \<and> orig_times self' = Some origs \<and>
           custom_times_annotation self' = Some ann \<and>
           length ct = length (read_lines f) \<and> length origs = length (read_lines f) \<and>
           length ann = length (read_lines f) \<and> TIME_STEPS inInfo = Some origs \<and>
           (\<forall>s out inp s' inp'. RequestUpdateExtent s out inp = Inr (s', inp') \<longrightarrow>
              custom_times s' = custom_times s \<and> orig_times s' = orig_times s \<and>
              custom_times_annotation s' = custom_times_annotation s)"
proof -
  from assms obtain g r ann ct where h:
    "Some f = Some g" "read_lines g \<noteq> []"
    "for_append annotation_of (read_lines g) = Inr ann"
    "for_append (seconds_since r) (read_lines g) = Inr ct"
    "Length inInfo = length ct"
    "custom_times self' = Some ct"
    "orig_times self' = Some (map (Get inInfo) [0..<length ct])"
    "custom_times_annotation self' = Some ann"
    by (rule RequestInformation_NoneE)
  from h(1) have g: "g = f" by simp
  from h(3) g have la: "length ann = length (read_lines f)" by (simp add: for_append_length)
  from h(4) g have lc: "length ct = length (read_lines f)" by (simp add: for_append_length)
  from h(2) g lc have "length ct \<noteq> 0" by simp
  with h(5) obtain ts where ts: "TIME_STEPS inInfo = Some ts" "length ts = length ct"
    by (auto simp: Length_def split: option.splits)
  then have "Get inInfo = (!) ts" by (simp add: Get_def fun_eq_iff)
  with ts(2) map_nth [of ts] have "map (Get inInfo) [0..<length ct] = ts" by simp
  with h(7) have o: "orig_times self' = Some ts" by simp
  from h(6) o h(8) la lc ts show ?thesis
    by (auto dest: RequestUpdateExtent_fields)
qed

theorem C9_three_lists_one_length_witness:
  "RequestInformation (Some bce_file) (no_keys\<lparr>TIME_STEPS := Some [10, 20, 30]\<rparr>) no_attributes no_keys
     = (None, bce_session, provide [0, 3187296000, 3187425600] no_keys) \<and>
   (\<exists>ct origs ann.
      custom_times bce_session = Some ct \<and> orig_times bce_session = Some origs \<and>
      custom_times_annotation bce_session = Some ann \<and>
      length ct = 3 \<and> length origs = 3 \<and> length ann = 3 \<and> length (read_lines bce_file) = 3)"
  using C9_three_lists_one_length [OF bce_build] bce_build
  by (simp add: bce_lines bce_session_def)

text \<open>
  C10. The index that RequestUpdateExtent computes from the requested time and the index
  that the Script computes from the time recorded by RequestUpdateExtent are the same,
  for every state of \<open>self\<close> and every requested time, absent (\<open>None\<close>) or not among
  the custom times included, whenever both are computed. In a built session both
  scripts return: the original time asked of the input and the annotation attached as
  \<open>current_date\<close> are those of that one index.
\<close>

theorem C10_same_index_in_both_scripts:
  "(RequestUpdateExtent self outInfo inInfo = Inr (self', inInfo') \<and> data_idx self' = Inr j
      \<longrightarrow> extent_idx self (UPDATE_TIME_STEP outInfo) = Inr j) \<and>
   (session_built self \<longrightarrow>
      (\<exists>i origs ann units self''.
         orig_times self = Some origs \<and> custom_times_annotation self = Some ann \<and>
         new_units self = Some units \<and> i < length origs \<and> i < length ann \<and>
         extent_idx self (UPDATE_TIME_STEP outInfo) = Inr i \<and>
         RequestUpdateExtent self outInfo inInfo =
           Inr (self'', inInfo\<lparr>UPDATE_TIME_STEP := Some (origs ! i)\<rparr>) \<and>
         data_idx self'' = Inr i \<and>
         RequestData self'' fd =
           Inr (AddArray ''current_date'' (StringArray [ann ! i])
                  (AddArray ''time_units'' (StringArray [units]) (remove_time_units fd)))))"
proof (intro conjI impI)
  assume a: "RequestUpdateExtent self outInfo inInfo = Inr (self', inInfo') \<and> data_idx self' = Inr j"
  then have run: "RequestUpdateExtent self outInfo inInfo = Inr (self', inInfo')"
    and j: "data_idx self' = Inr j" by simp_all
  from RequestUpdateExtent_fields [OF run] have same: "custom_times self' = custom_times self"
    by simp
  from j obtain ct where "custom_times self' = Some ct"
    unfolding data_idx_def by (auto split: option.splits)
  with same have ct: "custom_times self = Some ct" by simp
  from run have "self' = self\<lparr>current_requested_custom_time :=
      Some (case UPDATE_TIME_STEP outInfo of None \<Rightarrow> PyNone | Some t \<Rightarrow> PyFloat t)\<rparr>"
    unfolding RequestUpdateExtent_def Let_def
    by (auto split: sum.splits option.splits if_splits)
  with j data_idx_recorded [OF ct, of "UPDATE_TIME_STEP outInfo"]
  show "extent_idx self (UPDATE_TIME_STEP outInfo) = Inr j" by simp
next
  assume b: "session_built self"
  then obtain ct origs ann units where h:
    "custom_times self = Some ct" "orig_times self = Some origs"
    "custom_times_annotation self = Some ann" "new_units self = Some units"
    "ct \<noteq> []" "length origs = length ct" "length ann = length ct"
    by (rule session_builtE)
  define self'' where "self'' = self\<lparr>current_requested_custom_time :=
      Some (case UPDATE_TIME_STEP outInfo of None \<Rightarrow> PyNone | Some t \<Rightarrow> PyFloat t)\<rparr>"
  from RequestUpdateExtent_total [OF b, of outInfo inInfo] h(2) obtain i where i:
    "extent_idx self (UPDATE_TIME_STEP outInfo) = Inr i" "i < length origs"
    "RequestUpdateExtent self outInfo inInfo =
       Inr (self'', inInfo\<lparr>UPDATE_TIME_STEP := Some (origs ! i)\<rparr>)"
    unfolding self''_def by auto
  from data_idx_recorded [OF h(1), of "UPDATE_TIME_STEP outInfo"] i(1)
  have d: "data_idx self'' = Inr i" unfolding self''_def by simp
  have b'': "session_built self''"
    using b unfolding self''_def session_built_def by simp
  have f: "custom_times_annotation self'' = Some ann" "new_units self'' = Some units"
    using h unfolding self''_def by simp_all
  from i(2) h have ia: "i < length ann" by simp
  from RequestData_total [OF b'' d f ia, of fd] i ia h d
  show "\<exists>i origs ann units self''.
         orig_times self = Some origs \<and> custom_times_annotation self = Some ann \<and>
         new_units self = Some units \<and> i < length origs \<and> i < length ann \<and>
         extent_idx self (UPDATE_TIME_STEP outInfo) = Inr i \<and>
         RequestUpdateExtent self outInfo inInfo =
           Inr (self'', inInfo\<lparr>UPDATE_TIME_STEP := Some (origs ! i)\<rparr>) \<and>
         data_idx self'' = Inr i \<and>
         RequestData self'' fd =
           Inr (AddArray ''current_date'' (StringArray [ann ! i])
                  (AddArray ''time_units'' (StringArray [units]) (remove_time_units fd)))"
    by blast
qed

lemma bce_extent:
  "RequestUpdateExtent bce_session (no_keys\<lparr>UPDATE_TIME_STEP := Some 3187296000\<rparr>) no_keys =
     Inr (bce_session\<lparr>current_requested_custom_time := Some (PyFloat 3187296000)\<rparr>,
          no_keys\<lparr>UPDATE_TIME_STEP := Some 20\<rparr>)"
  by (simp add: RequestUpdateExtent_def extent_idx_def bce_session_def no_keys_def)

lemma bce_data_idx_second:
  "data_idx (bce_session\<lparr>current_requested_custom_time := Some (PyFloat 3187296000)\<rparr>) = Inr 1"
  by (simp add: data_idx_def bce_session_def)

theorem C10_same_index_in_both_scripts_witness:
  "RequestUpdateExtent bce_session (no_keys\<lparr>UPDATE_TIME_STEP := Some 3187296000\<rparr>) no_keys =
     Inr (bce_session\<lparr>current_requested_custom_time := Some (PyFloat 3187296000)\<rparr>,
          no_keys\<lparr>UPDATE_TIME_STEP := Some 20\<rparr>) \<and>
   data_idx (bce_session\<lparr>current_requested_custom_time := Some (PyFloat 3187296000)\<rparr>) = Inr 1 \<and>
   extent_idx bce_session (UPDATE_TIME_STEP (no_keys\<lparr>UPDATE_TIME_STEP := Some 3187296000\<rparr>)) = Inr 1 \<and>
   session_built bce_session"
  using C10_same_index_in_both_scripts [of bce_session "no_keys\<lparr>UPDATE_TIME_STEP := Some 3187296000\<rparr>"
      no_keys "bce_session\<lparr>current_requested_custom_time := Some (PyFloat 3187296000)\<rparr>"
      "no_keys\<lparr>UPDATE_TIME_STEP := Some 20\<rparr>" 1 netcdf_field_data]
    bce_extent bce_data_idx_second bce_built
  by simp

lemma repeated_lines:
  "read_lines repeated_file = [''2000-01-01T00:00:00'', ''2000-01-01T00:00:00'']"
  by (simp add: read_lines_def repeated_file_def nl_def strip_def is_space_def startswith_def)

lemma descending_lines:
  "read_lines descending_file = [''2000-01-02T00:00:00'', ''2000-01-01T00:00:00'']"
  by (simp add: read_lines_def descending_file_def nl_def strip_def is_space_def startswith_def)

lemma pd4: "parse_date ''2000-01-01T00:00:00'' = Inr (''2000-01-01'', ''00:00:00'')"
  by (simp add: parse_date_def)

lemma pd5: "parse_date ''2000-01-02T00:00:00'' = Inr (''2000-01-02'', ''00:00:00'')"
  by (simp add: parse_date_def)

lemma repeated_build:
  "RequestInformation (Some repeated_file) (no_keys\<lparr>TIME_STEPS := Some [10, 20]\<rparr>)
     no_attributes no_keys
   = (None,
      no_attributes\<lparr>custom_times := Some [0, 0], orig_times := Some [10, 20],
        new_units := Some ''seconds since 2000-01-01 00:00:00'',
        custom_times_annotation := Some [''2000-01-01 00:00:00'', ''2000-01-01 00:00:00''],
        initialized := Some True\<rparr>,
      provide [0, 0] no_keys)"
proof -
  have a: "for_append annotation_of [''2000-01-01T00:00:00'', ''2000-01-01T00:00:00'']
             = Inr [''2000-01-01 00:00:00'', ''2000-01-01 00:00:00'']"
    by (simp add: annotation_of_def pd4)
  have c: "for_append (seconds_since 946684800) [''2000-01-01T00:00:00'', ''2000-01-01T00:00:00'']
             = Inr [0, 0]"
    by (simp add: seconds_since_def timedelta_def wrap64_def NaT_def dt4 py_float_def)
  from RequestInformation_eval [OF repeated_lines dt4 pd4 a c, of "no_keys\<lparr>TIME_STEPS := Some [10, 20]\<rparr>" "[10, 20]" no_attributes no_keys]
  show ?thesis by simp
qed

text \<open>
  C1, as stated, fails for a file that holds the same date twice: the session is built,
  both custom times are 0, and the second of them is resolved to index 0, not to 1.
\<close>

theorem C1_round_trip_counterexample:
  "fst (RequestInformation (Some repeated_file) (no_keys\<lparr>TIME_STEPS := Some [10, 20]\<rparr>)
          no_attributes no_keys) = None \<and>
   custom_times (fst (snd (RequestInformation (Some repeated_file)
          (no_keys\<lparr>TIME_STEPS := Some [10, 20]\<rparr>) no_attributes no_keys))) = Some [0, 0] \<and>
   extent_idx (fst (snd (RequestInformation (Some repeated_file)
          (no_keys\<lparr>TIME_STEPS := Some [10, 20]\<rparr>) no_attributes no_keys))) (Some ([0, 0] ! 1))
     = Inr 0 \<and>
   data_idx ((fst (snd (RequestInformation (Some repeated_file)
          (no_keys\<lparr>TIME_STEPS := Some [10, 20]\<rparr>) no_attributes no_keys)))
        \<lparr>current_requested_custom_time := Some (PyFloat ([0, 0] ! 1))\<rparr>) = Inr 0 \<and>
   (0::nat) \<noteq> 1"
  by (simp add: repeated_build extent_idx_def data_idx_def)

text \<open>
  C1, amended. In a session state with custom times \<open>ct\<close>, the custom time at index
  \<open>i\<close> is resolved, by RequestUpdateExtent and by the Script alike, to the first index
  \<open>j\<close> that holds the same value; \<open>j\<close> is \<open>i\<close> when the value does not occur before
  \<open>i\<close>, so for every index when the custom times are pairwise distinct.
\<close>

theorem C1_round_trip_first_occurrence:
  assumes "custom_times self = Some ct" and "i < length ct"
  shows "\<exists>j. j \<le> i \<and> ct ! j = ct ! i \<and> ct ! i \<notin> set (take j ct) \<and>
           extent_idx self (Some (ct ! i)) = Inr j \<and>
           data_idx (self\<lparr>current_requested_custom_time := Some (PyFloat (ct ! i))\<rparr>) = Inr j \<and>
           (ct ! i \<notin> set (take i ct) \<longrightarrow> j = i) \<and> (distinct ct \<longrightarrow> j = i)"
proof -
  from list_index_nth_ex [OF assms(2)] obtain j where j:
    "list_index ct (ct ! i) = Some j" "j \<le> i" by blast
  from list_index_Some [OF j(1)] have p: "j < length ct" "ct ! j = ct ! i"
    "ct ! i \<notin> set (take j ct)" by simp_all
  from assms(1) j(1) have e: "extent_idx self (Some (ct ! i)) = Inr j"
    by (simp add: extent_idx_def)
  from assms(1) j(1)
  have d: "data_idx (self\<lparr>current_requested_custom_time := Some (PyFloat (ct ! i))\<rparr>) = Inr j"
    by (simp add: data_idx_def list_index_PyFloat)
  have first: "j = i" if "ct ! i \<notin> set (take i ct)"
  proof (rule ccontr)
    assume "j \<noteq> i"
    with j(2) have "j < i" by simp
    with assms(2) have "j < length (take i ct)" by simp
    then have "take i ct ! j \<in> set (take i ct)" by (rule nth_mem)
    with \<open>j < i\<close> have "ct ! j \<in> set (take i ct)" by simp
    with p(2) that show False by simp
  qed
  have dist: "j = i" if "distinct ct"
    using list_index_distinct [OF that assms(2)] j(1) by simp
  from j(2) p e d first dist show ?thesis
    by (intro exI [of _ j]) simp
qed

theorem C1_round_trip_first_occurrence_witness:
  "custom_times bce_session = Some [0, 3187296000, 3187425600] \<and>
   (2::nat) < length [0::rat, 3187296000, 3187425600] \<and>
   distinct [0::rat, 3187296000, 3187425600] \<and>
   extent_idx bce_session (Some ([0, 3187296000, 3187425600] ! 2)) = Inr 2 \<and>
   data_idx (bce_session\<lparr>current_requested_custom_time :=
               Some (PyFloat ([0, 3187296000, 3187425600] ! 2))\<rparr>) = Inr 2"
proof -
  have c: "custom_times bce_session = Some [0, 3187296000, 3187425600]"
    by (simp add: bce_session_def)
  have l: "(2::nat) < length [0::rat, 3187296000, 3187425600]" by simp
  have d: "distinct [0::rat, 3187296000, 3187425600]" by simp
  from C1_round_trip_first_occurrence [OF c l] d
  have "extent_idx bce_session (Some ([0, 3187296000, 3187425600] ! 2)) = Inr 2 \<and>
     data_idx (bce_session\<lparr>current_requested_custom_time :=
               Some (PyFloat ([0, 3187296000, 3187425600] ! 2))\<rparr>) = Inr 2"
    by auto
  with c l d show ?thesis by simp
qed

subsection \<open>Claims about the time range and the custom times\<close>

lemma fold_Append:
  "ct \<noteq> [] \<Longrightarrow>
   fold Append ct info =
     info\<lparr>TIME_STEPS := Some ((case TIME_STEPS info of None \<Rightarrow> [] | Some ts \<Rightarrow> ts) @ ct)\<rparr>"
proof (induction ct arbitrary: info)
  case Nil
  then show ?case by simp
next
  case (Cons t ct)
  show ?case
  proof (cases "ct = []")
    case True
    then show ?thesis by (simp add: Append_def)
  next
    case False
    from Cons.IH [OF False, of "Append t info"] show ?thesis
      by (simp add: Append_def)
  qed
qed

lemma provide_nonempty:
  "ct \<noteq> [] \<Longrightarrow>
   provide ct outInfo = outInfo\<lparr>TIME_STEPS := Some ct, TIME_RANGE := Some (hd ct, last ct)\<rparr>"
  by (simp add: provide_def fold_Append)

lemma sorted_bounds:
  fixes ct :: "rat list"
  assumes "sorted ct" and "x \<in> set ct"
  shows "hd ct \<le> x \<and> x \<le> last ct"
  using assms
proof (induction ct)
  case Nil
  then show ?case by simp
next
  case (Cons t ct)
  show ?case
  proof (cases "ct = []")
    case True
    with Cons.prems show ?thesis by simp
  next
    case False
    from Cons.prems have s: "sorted ct" and le: "\<forall>y\<in>set ct. t \<le> y" by simp_all
    from False have "last ct \<in> set ct" by simp
    with le have tl: "t \<le> last ct" by blast
    show ?thesis
    proof (cases "x = t")
      case True
      with False tl show ?thesis by simp
    next
      case False
      with Cons.prems have "x \<in> set ct" by simp
      from Cons.IH [OF s this] le this \<open>ct \<noteq> []\<close> show ?thesis by simp
    qed
  qed
qed

lemma descending_build:
  "RequestInformation (Some descending_file) (no_keys\<lparr>TIME_STEPS := Some [10, 20]\<rparr>)
     no_attributes no_keys
   = (None,
      no_attributes\<lparr>custom_times := Some [0, - 86400], orig_times := Some [10, 20],
        new_units := Some ''seconds since 2000-01-02 00:00:00'',
        custom_times_annotation := Some [''2000-01-02 00:00:00'', ''2000-01-01 00:00:00''],
        initialized := Some True\<rparr>,
      provide [0, - 86400] no_keys)"
proof -
  have a: "for_append annotation_of [''2000-01-02T00:00:00'', ''2000-01-01T00:00:00'']
             = Inr [''2000-01-02 00:00:00'', ''2000-01-01 00:00:00'']"
    by (simp add: annotation_of_def pd4 pd5)
  have c: "for_append (seconds_since 946771200) [''2000-01-02T00:00:00'', ''2000-01-01T00:00:00'']
             = Inr [0, - 86400]"
    by (simp add: seconds_since_def timedelta_def wrap64_def NaT_def dt4 dt5 py_float_def)
  from RequestInformation_eval [OF descending_lines dt5 pd5 a c, of "no_keys\<lparr>TIME_STEPS := Some [10, 20]\<rparr>" "[10, 20]" no_attributes no_keys]
  show ?thesis by simp
qed

text \<open>
  C5, as stated, fails for a file whose dates descend: the session is built with the
  custom times 0 and -86400, and the time range set on the output is (0, -86400),
  while the least custom time is -86400 and the greatest is 0. The pair does not bound
  the custom time -86400.
\<close>

theorem C5_time_range_counterexample:
  "fst (RequestInformation (Some descending_file) (no_keys\<lparr>TIME_STEPS := Some [10, 20]\<rparr>)
          no_attributes no_keys) = None \<and>
   custom_times (fst (snd (RequestInformation (Some descending_file)
          (no_keys\<lparr>TIME_STEPS := Some [10, 20]\<rparr>) no_attributes no_keys))) = Some [0, - 86400] \<and>
   TIME_RANGE (snd (snd (RequestInformation (Some descending_file)
          (no_keys\<lparr>TIME_STEPS := Some [10, 20]\<rparr>) no_attributes no_keys))) = Some (0, - 86400) \<and>
   Min (set [0, - 86400 :: rat]) = - 86400 \<and> Max (set [0, - 86400 :: rat]) = 0 \<and>
   \<not> ((0::rat) \<le> - 86400)"
  by (simp add: descending_build provide_nonempty)

text \<open>
  C5, amended. After a successful RequestInformation script the time steps of the output
  are the custom times and its time range is the pair of the first and the last custom
  time. When the custom times are in ascending order, which the script does not check,
  that pair is the least and the greatest custom time and bounds every custom time.
\<close>

theorem C5_time_range_first_last:
  assumes "RequestInformation tf inInfo self outInfo = (None, self', outInfo')"
  shows "\<exists>ct. custom_times self' = Some ct \<and> ct \<noteq> [] \<and>
           TIME_STEPS outInfo' = Some ct \<and> TIME_RANGE outInfo' = Some (hd ct, last ct) \<and>
           (sorted ct \<longrightarrow>
              hd ct = Min (set ct) \<and> last ct = Max (set ct) \<and>
              (\<forall>x\<in>set ct. hd ct \<le> x \<and> x \<le> last ct))"
proof -
  from assms obtain f r ct where h:
    "read_lines f \<noteq> []" "for_append (seconds_since r) (read_lines f) = Inr ct"
    "custom_times self' = Some ct" "outInfo' = provide ct outInfo"
    by (rule RequestInformation_NoneE)
  from h(2) have "length ct = length (read_lines f)" by (rule for_append_length)
  with h(1) have ne: "ct \<noteq> []" by auto
  from h(4) ne have out: "TIME_STEPS outInfo' = Some ct" "TIME_RANGE outInfo' = Some (hd ct, last ct)"
    by (simp_all add: provide_nonempty)
  have bounds: "hd ct = Min (set ct) \<and> last ct = Max (set ct) \<and>
              (\<forall>x\<in>set ct. hd ct \<le> x \<and> x \<le> last ct)" if s: "sorted ct"
  proof -
    have b: "\<forall>x\<in>set ct. hd ct \<le> x \<and> x \<le> last ct"
      using sorted_bounds [OF s] by blast
    from ne have m: "hd ct \<in> set ct" "last ct \<in> set ct" by simp_all
    from b m have "Min (set ct) = hd ct" by (intro Min_eqI) auto
    moreover from b m have "Max (set ct) = last ct" by (intro Max_eqI) auto
    ultimately show ?thesis using b by simp
  qed
  from h(3) ne out bounds show ?thesis by simp
qed

theorem C5_time_range_first_last_witness:
  "RequestInformation (Some bce_file) (no_keys\<lparr>TIME_STEPS := Some [10, 20, 30]\<rparr>) no_attributes no_keys
     = (None, bce_session, provide [0, 3187296000, 3187425600] no_keys) \<and>
   sorted [0 :: rat, 3187296000, 3187425600] \<and>
   TIME_STEPS (provide [0, 3187296000, 3187425600] no_keys) = Some [0, 3187296000, 3187425600] \<and>
   TIME_RANGE (provide [0, 3187296000, 3187425600] no_keys) = Some (0, 3187425600) \<and>
   Min (set [0 :: rat, 3187296000, 3187425600]) = 0 \<and>
   Max (set [0 :: rat, 3187296000, 3187425600]) = 3187425600"
proof -
  have s: "sorted [0 :: rat, 3187296000, 3187425600]" by simp
  have c: "custom_times bce_session = Some [0, 3187296000, 3187425600]"
    by (simp add: bce_session_def)
  from C5_time_range_first_last [OF bce_build] c s
  have "TIME_STEPS (provide [0, 3187296000, 3187425600] no_keys) = Some [0, 3187296000, 3187425600] \<and>
   TIME_RANGE (provide [0, 3187296000, 3187425600] no_keys) = Some (0, 3187425600) \<and>
   Min (set [0 :: rat, 3187296000, 3187425600]) = 0 \<and>
   Max (set [0 :: rat, 3187296000, 3187425600]) = 3187425600"
    by auto
  with bce_build s show ?thesis by simp
qed

subsection \<open>Claims about the step count check\<close>

lemma RequestInformation_mismatch:
  assumes "read_lines f = line # rest"
    and "datetime64 line = Inr r"
    and "parse_date line = Inr (d, t)"
    and "for_append annotation_of (line # rest) = Inr ann"
    and "for_append (seconds_since r) (line # rest) = Inr ct"
    and "Length inInfo \<noteq> length (line # rest)"
  shows "RequestInformation (Some f) inInfo self outInfo =
           (Some (StepCountMismatch (length (line # rest)) (Length inInfo)),
            self\<lparr>custom_times := None, orig_times := None,
                 new_units := Some (''seconds since '' @ d @ '' '' @ t),
                 custom_times_annotation := Some ann\<rparr>,
            outInfo)"
proof -
  from assms(5) have "length ct = length (line # rest)" by (rule for_append_length)
  with assms show ?thesis
    unfolding RequestInformation_def Let_def by simp
qed

lemma bce_mismatch:
  "RequestInformation (Some bce_file) (no_keys\<lparr>TIME_STEPS := Some [1, 2, 3, 4, 5]\<rparr>)
     no_attributes no_keys
   = (Some (StepCountMismatch 3 5),
      no_attributes\<lparr>new_units := Some ''seconds since -0100-01-01 00:00:00'',
        custom_times_annotation :=
          Some [''-0100-01-01 00:00:00'', ''0001-01-01 00:00:00'', ''0001-01-02 12:00:00'']\<rparr>,
      no_keys)"
proof -
  have l: "Length (no_keys\<lparr>TIME_STEPS := Some [1, 2, 3, 4, 5]\<rparr>)
             \<noteq> length [''-0100-01-01T00:00:00'', ''0001-01-01T00:00:00'', ''0001-01-02T12:00:00'']"
    by (simp add: Length_def)
  from RequestInformation_mismatch [OF bce_lines dt1 pd1 bce_ann bce_ct l, of no_attributes no_keys]
  show ?thesis by (simp add: Length_def no_attributes_def)
qed

text \<open>
  C4, as stated, fails in its second half. For a file of three entries and an input of
  five time steps the script raises the exception of the step count check, but the
  filter object, which had no attribute before, holds the unit string and the annotation
  list of the file afterwards: both are assigned before the check.
\<close>

theorem C4_step_count_counterexample:
  "fst (RequestInformation (Some bce_file) (no_keys\<lparr>TIME_STEPS := Some [1, 2, 3, 4, 5]\<rparr>)
          no_attributes no_keys) = Some (StepCountMismatch 3 5) \<and>
   new_units no_attributes = None \<and>
   custom_times_annotation no_attributes = None \<and>
   new_units (fst (snd (RequestInformation (Some bce_file)
          (no_keys\<lparr>TIME_STEPS := Some [1, 2, 3, 4, 5]\<rparr>) no_attributes no_keys)))
     = Some ''seconds since -0100-01-01 00:00:00'' \<and>
   custom_times_annotation (fst (snd (RequestInformation (Some bce_file)
          (no_keys\<lparr>TIME_STEPS := Some [1, 2, 3, 4, 5]\<rparr>) no_attributes no_keys)))
     = Some [''-0100-01-01 00:00:00'', ''0001-01-01 00:00:00'', ''0001-01-02 12:00:00'']"
  by (simp add: bce_mismatch) (simp add: no_attributes_def)

text \<open>
  C4, amended. When every entry of the file is parsed and the number of time steps of the
  input differs from the number of entries, the RequestInformation script raises the
  exception of the step count check, which carries both counts. The custom times and the
  original times are not stored (the two attributes are absent afterwards, also when an
  earlier run had stored them), \<open>initialized\<close> is not assigned, and the output
  information is left as it was. The unit string and the annotation list of the file are
  stored by then.
\<close>

theorem C4_step_count_mismatch:
  assumes "read_lines f = line # rest"
    and "datetime64 line = Inr r"
    and "parse_date line = Inr (d, t)"
    and "for_append annotation_of (line # rest) = Inr ann"
    and "for_append (seconds_since r) (line # rest) = Inr ct"
    and "Length inInfo \<noteq> length (line # rest)"
  shows "RequestInformation (Some f) inInfo self outInfo =
           (Some (StepCountMismatch (length (read_lines f)) (Length inInfo)),
            self\<lparr>custom_times := None, orig_times := None,
                 new_units := Some (''seconds since '' @ d @ '' '' @ t),
                 custom_times_annotation := Some ann\<rparr>,
            outInfo)"
  using RequestInformation_mismatch [OF assms] assms(1) by simp

theorem C4_step_count_mismatch_witness:
  "read_lines bce_file = [''-0100-01-01T00:00:00'', ''0001-01-01T00:00:00'', ''0001-01-02T12:00:00''] \<and>
   Length (no_keys\<lparr>TIME_STEPS := Some [1, 2, 3, 4, 5]\<rparr>) = 5 \<and>
   RequestInformation (Some bce_file) (no_keys\<lparr>TIME_STEPS := Some [1, 2, 3, 4, 5]\<rparr>)
     bce_session no_keys
   = (Some (StepCountMismatch 3 5),
      bce_session\<lparr>custom_times := None, orig_times := None\<rparr>,
      no_keys) \<and>
   mismatch_message 3 5
     = ''Number of dates in file (3) doesn'' @ [CHR 0x27] @ ''t match time steps in data (5)!''"
proof -
  have l: "Length (no_keys\<lparr>TIME_STEPS := Some [1, 2, 3, 4, 5]\<rparr>)
             \<noteq> length [''-0100-01-01T00:00:00'', ''0001-01-01T00:00:00'', ''0001-01-02T12:00:00'']"
    by (simp add: Length_def)
  have m: "mismatch_message 3 5
     = ''Number of dates in file (3) doesn'' @ [CHR 0x27] @ ''t match time steps in data (5)!''"
    by code_simp
  from C4_step_count_mismatch [OF bce_lines dt1 pd1 bce_ann bce_ct l, of bce_session no_keys] m
  show ?thesis by (simp add: bce_lines Length_def bce_session_def)
qed

subsection \<open>Claims about the entries of the file\<close>

lemma pd2: "parse_date ''0001-01-01T00:00:00'' = Inr (''0001-01-01'', ''00:00:00'')"
  by (simp add: parse_date_def)

lemma pd6: "parse_date ''2000-01-01T12:00:00'' = Inr (''2000-01-01'', ''12:00:00'')"
  by (simp add: parse_date_def)

lemma parse_date_parts:
  assumes "parse_date line = Inr (d, t)"
  shows "line = d @ ''T'' @ t \<and> CHR ''T'' \<notin> set d \<and> d \<noteq> [] \<and> t \<noteq> []"
proof -
  let ?P = "\<lambda>c. c \<noteq> CHR ''T''"
  from assms have T: "CHR ''T'' \<in> set line"
    and d: "d = takeWhile ?P line" and t: "t = tl (dropWhile ?P line)"
    and ne: "d \<noteq> []" "t \<noteq> []"
    unfolding parse_date_def Let_def by (auto split: if_splits)
  from T have "dropWhile ?P line \<noteq> []" by (simp add: dropWhile_eq_Nil_conv)
  moreover from this have "hd (dropWhile ?P line) = CHR ''T''"
    using hd_dropWhile [of ?P line] by simp
  ultimately have "dropWhile ?P line = CHR ''T'' # t"
    using t by (cases "dropWhile ?P line") simp_all
  with takeWhile_dropWhile_id [of ?P line] d have "line = d @ ''T'' @ t" by simp
  moreover have "CHR ''T'' \<notin> set d"
    unfolding d by (auto dest: set_takeWhileD)
  ultimately show ?thesis using ne by simp
qed

subsection \<open>Exact and rounded durations\<close>

lemma bit_length_bound: "n < 2 ^ k \<Longrightarrow> bit_length n \<le> k"
proof (induction k arbitrary: n)
  case 0
  then have "n = 0" by simp
  then show ?case by simp
next
  case (Suc k)
  show ?case
  proof (cases "n = 0")
    case True
    then show ?thesis by simp
  next
    case False
    then have u: "bit_length n = Suc (bit_length (n div 2))"
      by (subst bit_length.simps) (simp del: bit_length.simps)
    from Suc.prems have "n div 2 < 2 ^ k" by simp
    from Suc.IH [OF this] u show ?thesis by (simp del: bit_length.simps)
  qed
qed

lemma py_float_exact:
  assumes "\<bar>n\<bar> < 2 ^ 53"
  shows "py_float n = of_int n"
proof -
  from assms have "nat \<bar>n\<bar> < 2 ^ 53"
    by (simp add: nat_less_iff)
  then have "bit_length (nat \<bar>n\<bar>) \<le> 53" by (rule bit_length_bound)
  then show ?thesis by (simp add: py_float_def Let_def del: bit_length.simps)
qed

lemma wrap64_id: "- (2 ^ 63) \<le> n \<Longrightarrow> n < 2 ^ 63 \<Longrightarrow> wrap64 n = n"
  by (simp add: wrap64_def)

lemma for_append_nth:
  "for_append f xs = Inr ys \<Longrightarrow> i < length xs \<Longrightarrow> f (xs ! i) = Inr (ys ! i)"
proof (induction xs arbitrary: ys i)
  case Nil
  then show ?case by simp
next
  case (Cons x xs)
  from Cons.prems(1) obtain y zs where h: "f x = Inr y" "for_append f xs = Inr zs" "ys = y # zs"
    by (auto split: sum.splits)
  show ?case
  proof (cases i)
    case 0
    with h show ?thesis by simp
  next
    case (Suc k)
    with Cons.prems(2) have "k < length xs" by simp
    from Cons.IH [OF h(2) this] h(3) Suc show ?thesis by simp
  qed
qed

lemma seconds_since_exact:
  assumes "civil_instant ref_line = Inr a" and "civil_instant line = Inr c"
    and "\<bar>a\<bar> < 2 ^ 52" and "\<bar>c\<bar> < 2 ^ 52"
    and "datetime64 ref_line = Inr r"
  shows "seconds_since r line = Inr (of_int (c - a))"
proof -
  from assms(3) have a: "wrap64 a = a" by (intro wrap64_id) simp_all
  from assms(4) have c: "wrap64 c = c" by (intro wrap64_id) simp_all
  from assms(1,5) a have r: "r = a" by (simp add: datetime64_def)
  from assms(2) c have d: "datetime64 line = Inr c" by (simp add: datetime64_def)
  from assms(3,4) have n: "a \<noteq> NaT" "c \<noteq> NaT" by (simp_all add: NaT_def)
  from assms(3,4) have small: "\<bar>c - a\<bar> < 2 ^ 53" by simp
  then have "wrap64 (c - a) = c - a" by (intro wrap64_id) simp_all
  with n have "timedelta c a = c - a" by (simp add: timedelta_def)
  with d r py_float_exact [OF small] show ?thesis by (simp add: seconds_since_def)
qed

lemmas civil_eval = civil_instant_def startswith_def number_def two_digits_def is_digit_def
  days_in_month_def is_leap_def instant_def days_before_year_def days_before_month_def Let_def

lemma ci1: "civil_instant ''-300000000-01-01T00:00:00'' = Inr (- 9467147767219200)"
  by (simp add: civil_eval)
lemma ci2: "civil_instant ''0001-01-01T00:00:01'' = Inr (- 62135596799)"
  by (simp add: civil_eval)
lemma ci3: "civil_instant ''-0100-01-01T00:00:00'' = Inr (- 65322892800)"
  by (simp add: civil_eval)
lemma ci4: "civil_instant ''0001-01-01T00:00:00'' = Inr (- 62135596800)"
  by (simp add: civil_eval)
lemma dt8: "datetime64 ''-300000000-01-01T00:00:00'' = Inr (- 9467147767219200)"
  by (simp add: datetime64_def ci1 wrap64_def)
lemma dt9: "datetime64 ''0001-01-01T00:00:01'' = Inr (- 62135596799)"
  by (simp add: datetime64_def ci2 wrap64_def)

text \<open>
  A date whose instant does not fit 64 bits is stored reduced: the first day of year
  400000000000 is stored as a negative number of seconds.
\<close>

lemma datetime64_wraps:
  "civil_instant ''400000000000-01-01T00:00:00'' = Inr 12622780737832780800 \<and>
   datetime64 ''400000000000-01-01T00:00:00'' = Inr (- 5823963335876770816)"
  by (simp add: datetime64_def civil_eval wrap64_def)

lemma long_span_lines:
  "read_lines long_span_file = [''-300000000-01-01T00:00:00'', ''0001-01-01T00:00:01'']"
  by (simp add: read_lines_def long_span_file_def nl_def strip_def is_space_def startswith_def)

lemma pf_long: "py_float 9467085631622401 = 9467085631622400"
  by (simp add: py_float_def Let_def)

lemma long_span_build:
  "RequestInformation (Some long_span_file) (no_keys\<lparr>TIME_STEPS := Some [10, 20]\<rparr>)
     no_attributes no_keys
   = (None,
      no_attributes\<lparr>custom_times := Some [0, 9467085631622400], orig_times := Some [10, 20],
        new_units := Some ''seconds since -300000000-01-01 00:00:00'',
        custom_times_annotation :=
          Some [''-300000000-01-01 00:00:00'', ''0001-01-01 00:00:01''],
        initialized := Some True\<rparr>,
      provide [0, 9467085631622400] no_keys)"
proof -
  have p: "parse_date ''-300000000-01-01T00:00:00'' = Inr (''-300000000-01-01'', ''00:00:00'')"
    by (simp add: parse_date_def)
  have a: "for_append annotation_of [''-300000000-01-01T00:00:00'', ''0001-01-01T00:00:01'']
             = Inr [''-300000000-01-01 00:00:00'', ''0001-01-01 00:00:01'']"
    by (simp add: annotation_of_def parse_date_def)
  have t: "timedelta (- 62135596799) (- 9467147767219200) = 9467085631622401"
    by (simp add: timedelta_def wrap64_def NaT_def)
  have t0: "timedelta (- 9467147767219200) (- 9467147767219200) = 0"
    by (simp add: timedelta_def wrap64_def NaT_def)
  have z: "py_float 0 = 0" by (simp add: py_float_def)
  have c: "for_append (seconds_since (- 9467147767219200))
             [''-300000000-01-01T00:00:00'', ''0001-01-01T00:00:01''] = Inr [0, 9467085631622400]"
    by (simp add: seconds_since_def dt8 dt9 t t0 pf_long z)
  from RequestInformation_eval [OF long_span_lines dt8 p a c, of "no_keys\<lparr>TIME_STEPS := Some [10, 20]\<rparr>" "[10, 20]" no_attributes no_keys]
  show ?thesis by simp
qed

lemma two_entry_build:
  "RequestInformation (Some [''-0100-01-01T00:00:00'' @ nl, ''0001-01-01T00:00:00'' @ nl])
     (inInfo\<lparr>TIME_STEPS := Some [t0, t1]\<rparr>) self outInfo =
     (None,
      self\<lparr>custom_times := Some [0, 3187296000], orig_times := Some [t0, t1],
           new_units := Some ''seconds since -0100-01-01 00:00:00'',
           custom_times_annotation := Some [''-0100-01-01 00:00:00'', ''0001-01-01 00:00:00''],
           initialized := Some True\<rparr>,
      provide [0, 3187296000] outInfo) \<and>
   seconds_since (- 65322892800) ''0001-01-01T00:00:00'' = Inr 3187296000"
proof -
  have l: "read_lines [''-0100-01-01T00:00:00'' @ nl, ''0001-01-01T00:00:00'' @ nl]
             = [''-0100-01-01T00:00:00'', ''0001-01-01T00:00:00'']"
    by (simp add: read_lines_def nl_def strip_def is_space_def startswith_def)
  have a: "for_append annotation_of [''-0100-01-01T00:00:00'', ''0001-01-01T00:00:00'']
             = Inr [''-0100-01-01 00:00:00'', ''0001-01-01 00:00:00'']"
    by (simp add: annotation_of_def pd1 pd2)
  have s: "seconds_since (- 65322892800) ''0001-01-01T00:00:00'' = Inr 3187296000"
    by (simp add: seconds_since_def timedelta_def wrap64_def NaT_def dt2 py_float_def)
  have s0: "seconds_since (- 65322892800) ''-0100-01-01T00:00:00'' = Inr 0"
    by (simp add: seconds_since_def timedelta_def wrap64_def NaT_def dt1 py_float_def)
  have c: "for_append (seconds_since (- 65322892800)) [''-0100-01-01T00:00:00'', ''0001-01-01T00:00:00'']
             = Inr [0, 3187296000]"
    by (simp add: s s0)
  from RequestInformation_eval [OF l dt1 pd1 a c, of "inInfo\<lparr>TIME_STEPS := Some [t0, t1]\<rparr>" "[t0, t1]" self outInfo] s
  show ?thesis by simp
qed

lemma custom_time_exact:
  assumes "RequestInformation (Some f) info s out = (None, s', out')"
    and "custom_times s' = Some ct" and "i < length ct"
    and "civil_instant (hd (read_lines f)) = Inr a"
    and "civil_instant (read_lines f ! i) = Inr c"
    and "\<bar>a\<bar> < 2 ^ 52" and "\<bar>c\<bar> < 2 ^ 52"
  shows "ct ! i = of_int (c - a)"
proof -
  from assms(1) obtain g r ct' where h:
    "Some f = Some g" "datetime64 (hd (read_lines g)) = Inr r"
    "for_append (seconds_since r) (read_lines g) = Inr ct'"
    "custom_times s' = Some ct'"
    by (rule RequestInformation_NoneE)
  from h(1) have g: "g = f" by simp
  from h(4) assms(2) have ct: "ct' = ct" by simp
  from h(3) g ct have fa: "for_append (seconds_since r) (read_lines f) = Inr ct" by simp
  from fa have "length ct = length (read_lines f)" by (rule for_append_length)
  with assms(3) have "i < length (read_lines f)" by simp
  from for_append_nth [OF fa this] have "seconds_since r (read_lines f ! i) = Inr (ct ! i)" .
  moreover from h(2) g have "datetime64 (hd (read_lines f)) = Inr r" by simp
  from seconds_since_exact [OF assms(4) assms(5) assms(6) assms(7) this]
  have "seconds_since r (read_lines f ! i) = Inr (of_int (c - a))" .
  ultimately show ?thesis by simp
qed

text \<open>
  C2, as stated, fails in its general clause. For a file whose first date is in year
  -300000000 and whose second is the first second of year 1, the script succeeds and
  the two dates are 9467085631622401 seconds apart in the calendar, but the custom time
  stored for the second entry is 9467085631622400: the conversion to a float rounds a
  whole number above \<open>2 ^ 53\<close>.
\<close>

theorem C2_exact_seconds_counterexample:
  "fst (RequestInformation (Some long_span_file) (no_keys\<lparr>TIME_STEPS := Some [10, 20]\<rparr>)
          no_attributes no_keys) = None \<and>
   custom_times (fst (snd (RequestInformation (Some long_span_file)
          (no_keys\<lparr>TIME_STEPS := Some [10, 20]\<rparr>) no_attributes no_keys)))
     = Some [0, 9467085631622400] \<and>
   civil_instant (read_lines long_span_file ! 0) = Inr (- 9467147767219200) \<and>
   civil_instant (read_lines long_span_file ! 1) = Inr (- 62135596799) \<and>
   (- 62135596799) - (- 9467147767219200) = (9467085631622401 :: int) \<and>
   [0, 9467085631622400 :: rat] ! 1 \<noteq> of_int 9467085631622401"
  by (simp add: long_span_build long_span_lines ci1 ci2)

text \<open>
  C2, amended. For the file of the two entries \<open>-0100-01-01T00:00:00\<close> and
  \<open>0001-01-01T00:00:00\<close> and an input of two time steps, the RequestInformation script
  returns without an exception and stores the custom times 0 and 3187296000. The second
  is positive and is the whole number of seconds of the 101 years from year -100 to
  year 1 of the proleptic calendar, 25 of them leap years: 36890 days of 86400 seconds.
  In every successful run, the custom time of an entry is the exact whole number of
  seconds from the first entry to it in the calendar, whenever both instants are less
  than \<open>2 ^ 52\<close> seconds (more than 142 million years) away from the start of 1970.
\<close>

theorem C2_bce_duration:
  "RequestInformation (Some [''-0100-01-01T00:00:00'' @ nl, ''0001-01-01T00:00:00'' @ nl])
     (inInfo\<lparr>TIME_STEPS := Some [t0, t1]\<rparr>) self outInfo =
     (None,
      self\<lparr>custom_times := Some [0, 3187296000], orig_times := Some [t0, t1],
           new_units := Some ''seconds since -0100-01-01 00:00:00'',
           custom_times_annotation := Some [''-0100-01-01 00:00:00'', ''0001-01-01 00:00:00''],
           initialized := Some True\<rparr>,
      provide [0, 3187296000] outInfo) \<and>
   (0::rat) < 3187296000 \<and>
   (3187296000::rat) = of_int ((101 * 365 + 25) * 86400) \<and>
   seconds_since (- 65322892800) ''0001-01-01T00:00:00'' = Inr 3187296000 \<and>
   (RequestInformation (Some f) info s out = (None, s', out') \<and>
    custom_times s' = Some ct \<and> i < length ct \<and>
    civil_instant (hd (read_lines f)) = Inr a \<and>
    civil_instant (read_lines f ! i) = Inr c \<and>
    \<bar>a\<bar> < 2 ^ 52 \<and> \<bar>c\<bar> < 2 ^ 52
    \<longrightarrow> ct ! i = of_int (c - a))"
proof (intro conjI impI)
  show "RequestInformation (Some [''-0100-01-01T00:00:00'' @ nl, ''0001-01-01T00:00:00'' @ nl])
     (inInfo\<lparr>TIME_STEPS := Some [t0, t1]\<rparr>) self outInfo =
     (None,
      self\<lparr>custom_times := Some [0, 3187296000], orig_times := Some [t0, t1],
           new_units := Some ''seconds since -0100-01-01 00:00:00'',
           custom_times_annotation := Some [''-0100-01-01 00:00:00'', ''0001-01-01 00:00:00''],
           initialized := Some True\<rparr>,
      provide [0, 3187296000] outInfo)"
    using two_entry_build by (rule conjunct1)
  show "(0::rat) < 3187296000" by simp
  show "(3187296000::rat) = of_int ((101 * 365 + 25) * 86400)" by simp
  show "seconds_since (- 65322892800) ''0001-01-01T00:00:00'' = Inr 3187296000"
    using two_entry_build by (rule conjunct2)
next
  assume h: "RequestInformation (Some f) info s out = (None, s', out') \<and>
    custom_times s' = Some ct \<and> i < length ct \<and>
    civil_instant (hd (read_lines f)) = Inr a \<and>
    civil_instant (read_lines f ! i) = Inr c \<and>
    \<bar>a\<bar> < 2 ^ 52 \<and> \<bar>c\<bar> < 2 ^ 52"
  then show "ct ! i = of_int (c - a)"
    by (intro custom_time_exact [of f info s out s' out' ct i a c]) simp_all
qed

theorem C2_bce_duration_witness:
  "RequestInformation (Some bce_file) (no_keys\<lparr>TIME_STEPS := Some [10, 20, 30]\<rparr>)
     no_attributes no_keys
     = (None, bce_session, provide [0, 3187296000, 3187425600] no_keys) \<and>
   custom_times bce_session = Some [0, 3187296000, 3187425600] \<and>
   (1::nat) < length [0 :: rat, 3187296000, 3187425600] \<and>
   civil_instant (hd (read_lines bce_file)) = Inr (- 65322892800) \<and>
   civil_instant (read_lines bce_file ! 1) = Inr (- 62135596800) \<and>
   \<bar>- 65322892800 :: int\<bar> < 2 ^ 52 \<and> \<bar>- 62135596800 :: int\<bar> < 2 ^ 52 \<and>
   [0 :: rat, 3187296000, 3187425600] ! 1 = of_int (- 62135596800 - (- 65322892800))"
proof -
  have c: "custom_times bce_session = Some [0, 3187296000, 3187425600]"
    by (simp add: bce_session_def)
  have l: "(1::nat) < length [0 :: rat, 3187296000, 3187425600]" by simp
  have a: "civil_instant (hd (read_lines bce_file)) = Inr (- 65322892800)"
    by (simp add: bce_lines ci3)
  have b: "civil_instant (read_lines bce_file ! 1) = Inr (- 62135596800)"
    by (simp add: bce_lines ci4)
  have s: "\<bar>- 65322892800 :: int\<bar> < 2 ^ 52" "\<bar>- 62135596800 :: int\<bar> < 2 ^ 52"
    by simp_all
  note t = C2_bce_duration [where f = bce_file
      and info = "no_keys\<lparr>TIME_STEPS := Some [10, 20, 30]\<rparr>" and s = no_attributes
      and out = no_keys and s' = bce_session
      and out' = "provide [0, 3187296000, 3187425600] no_keys"
      and ct = "[0, 3187296000, 3187425600]" and i = 1
      and a = "- 65322892800" and c = "- 62135596800",
      THEN conjunct2, THEN conjunct2, THEN conjunct2, THEN conjunct2]
  from t bce_build c l a b s
  have "[0 :: rat, 3187296000, 3187425600] ! 1 = of_int (- 62135596800 - (- 65322892800))"
    by blast
  with bce_build c l a b s show ?thesis by blast
qed

subsection \<open>The unit string and the comment lines\<close>

text \<open>
  C7. The unit string is put together from the two parts of the text of the first entry,
  which \<open>parse_date\<close> cuts at its first \<open>T\<close>: the date part, a space and the time part
  follow \<open>seconds since\<close>, and the parsed instant is not used. The string is stored as
  soon as the first entry is parsed, whatever happens later in the script. For the
  first entry \<open>2000-01-01T12:00:00\<close> it is \<open>seconds since 2000-01-01 12:00:00\<close>.
\<close>

theorem C7_units_from_reference_text:
  assumes "read_lines f = line # rest"
    and "datetime64 line = Inr r"
    and "parse_date line = Inr (d, t)"
  shows "line = d @ ''T'' @ t \<and> CHR ''T'' \<notin> set d \<and>
         new_units (fst (snd (RequestInformation (Some f) inInfo self outInfo)))
           = Some (''seconds since '' @ d @ '' '' @ t)"
proof -
  have "new_units (fst (snd (RequestInformation (Some f) inInfo self outInfo)))
           = Some (''seconds since '' @ d @ '' '' @ t)"
    using assms unfolding RequestInformation_def Let_def
    by (simp split: sum.splits)
  with parse_date_parts [OF assms(3)] show ?thesis by simp
qed

theorem C7_units_from_reference_text_witness:
  "read_lines [''2000-01-01T12:00:00'' @ nl] = [''2000-01-01T12:00:00''] \<and>
   datetime64 ''2000-01-01T12:00:00'' = Inr 946728000 \<and>
   parse_date ''2000-01-01T12:00:00'' = Inr (''2000-01-01'', ''12:00:00'') \<and>
   new_units (fst (snd (RequestInformation (Some [''2000-01-01T12:00:00'' @ nl])
                (no_keys\<lparr>TIME_STEPS := Some [0]\<rparr>) no_attributes no_keys)))
     = Some ''seconds since 2000-01-01 12:00:00''"
proof -
  have l: "read_lines [''2000-01-01T12:00:00'' @ nl] = [''2000-01-01T12:00:00'']"
    by (simp add: read_lines_def nl_def strip_def is_space_def startswith_def)
  from C7_units_from_reference_text [OF l dt6 pd6, of "no_keys\<lparr>TIME_STEPS := Some [0]\<rparr>" no_attributes no_keys]
    l dt6 pd6
  show ?thesis by simp
qed

text \<open>
  C6 does not hold of the script: the test for a comment is made on the line as read,
  before it is stripped. A comment line with blanks before its \<open>#\<close> is kept, stripped,
  as an entry, and the script fails when it parses that entry as a date.
\<close>

theorem C6_indented_comment_is_kept:
  "read_lines [''# first'' @ nl, ''  # comment'' @ nl, ''2000-01-01T00:00:00'' @ nl]
     = [''# comment'', ''2000-01-01T00:00:00''] \<and>
   fst (RequestInformation
          (Some [''# first'' @ nl, ''  # comment'' @ nl, ''2000-01-01T00:00:00'' @ nl])
          inInfo self outInfo)
     = Some (BadDatetime ''# comment'')"
proof -
  have l: "read_lines [''# first'' @ nl, ''  # comment'' @ nl, ''2000-01-01T00:00:00'' @ nl]
     = [''# comment'', ''2000-01-01T00:00:00'']"
    by (simp add: read_lines_def nl_def strip_def is_space_def startswith_def)
  then show ?thesis
    unfolding RequestInformation_def Let_def by (simp add: dt7)
qed

end
